theory Spec2Isabelle
  imports Complex_Main "HOL-Library.Sublist" "HOL-Library.Word"
begin

section \<open>Python strings\<close>

text \<open>
  A Python \<open>str\<close> is a sequence of Unicode code points, so a string is a list of code
  points (natural numbers). \<open>py\<close> turns an ASCII literal into such a string.
\<close>

type_synonym pychar = nat
type_synonym pystr = "pychar list"

definition py :: "string \<Rightarrow> pystr" where
  "py cs = map of_char cs"

text \<open>
  The characters that \<open>str.strip\<close>, \<open>str.lstrip\<close> and \<open>str.isspace\<close> treat as white
  space (CPython's \<open>_PyUnicode_IsWhitespace\<close>).
\<close>

definition isspace :: "pychar \<Rightarrow> bool" where
  "isspace c \<longleftrightarrow>
     (9 \<le> c \<and> c \<le> 13) \<or> (28 \<le> c \<and> c \<le> 32) \<or> c = 133 \<or> c = 160 \<or> c = 5760 \<or>
     (8192 \<le> c \<and> c \<le> 8202) \<or> c = 8232 \<or> c = 8233 \<or> c = 8239 \<or> c = 8287 \<or> c = 12288"

definition lstrip :: "pystr \<Rightarrow> pystr" where
  "lstrip s = dropWhile isspace s"

definition rstrip :: "pystr \<Rightarrow> pystr" where
  "rstrip s = rev (dropWhile isspace (rev s))"

definition strip :: "pystr \<Rightarrow> pystr" where
  "strip s = lstrip (rstrip s)"

text \<open>\<open>s.startswith(p)\<close> and \<open>sub in s\<close>.\<close>

definition startswith :: "pystr \<Rightarrow> pystr \<Rightarrow> bool" where
  "startswith s p = prefix p s"

definition contains :: "pystr \<Rightarrow> pystr \<Rightarrow> bool" where
  "contains s sub = sublist sub s"

text \<open>
  \<open>s.replace(old, new)\<close>: one scan from the left; at each position where \<open>old\<close> starts,
  \<open>new\<close> is emitted and the scan resumes behind the occurrence. What the scan has
  already emitted is never looked at again. With an empty \<open>old\<close>, Python puts \<open>new\<close>
  before every character and at the end.
\<close>

function replace :: "pystr \<Rightarrow> pystr \<Rightarrow> pystr \<Rightarrow> pystr" where
  "replace old new [] = (if old = [] then new else [])"
| "replace old new (c # cs) =
     (if old = [] then new @ c # replace old new cs
      else if prefix old (c # cs) then new @ replace old new (drop (length old) (c # cs))
      else c # replace old new cs)"
  by pat_completeness auto
termination
  by (relation "measure (\<lambda>(old, new, s). length s)") auto

section \<open>The turn parsing protocol (main.py)\<close>

definition HR_MANAGER_TAG :: pystr where
  "HR_MANAGER_TAG = py ''[HR_MANAGER]''"

definition TECH_LEAD_TAG :: pystr where
  "TECH_LEAD_TAG = py ''[TECH_LEAD]''"

definition HR_MANAGER :: pystr where
  "HR_MANAGER = py ''HR Manager''"

definition TECH_LEAD :: pystr where
  "TECH_LEAD = py ''Tech Lead''"

definition end_token :: pystr where
  "end_token = py ''<END_INTERVIEW>''"

text \<open>
  \<open>parse_panel_speaker_and_text(raw)\<close> returns the triple
  \<open>(speaker_role, text, interview_done)\<close>.
\<close>

definition parse_panel_speaker_and_text :: "pystr \<Rightarrow> pystr \<times> pystr \<times> bool" where
  "parse_panel_speaker_and_text raw0 =
     (let raw = strip raw0;
          (speaker_role, text) =
            (if startswith raw HR_MANAGER_TAG
               then (HR_MANAGER, lstrip (drop (length HR_MANAGER_TAG) raw))
             else if startswith raw TECH_LEAD_TAG
               then (TECH_LEAD, lstrip (drop (length TECH_LEAD_TAG) raw))
             else (HR_MANAGER, raw));
          interview_done = contains text end_token;
          text = strip (replace end_token [] text)
      in (speaker_role, text, interview_done))"

text \<open>
  Notions for the properties of the parser: the text behind the marker (the value of
  \<open>text\<close> before the end token is removed), the white space a string begins and ends
  with, and the strings in which the character \<open><\<close> (code point 60) occurs only
  as the first character of an occurrence of the end token.
\<close>

definition panel_text :: "pystr \<Rightarrow> pystr" where
  "panel_text raw0 =
     (let raw = strip raw0
      in if startswith raw HR_MANAGER_TAG then lstrip (drop (length HR_MANAGER_TAG) raw)
         else if startswith raw TECH_LEAD_TAG then lstrip (drop (length TECH_LEAD_TAG) raw)
         else raw)"

definition leading_space :: "pystr \<Rightarrow> pystr" where
  "leading_space s = takeWhile isspace s"

definition trailing_space :: "pystr \<Rightarrow> pystr" where
  "trailing_space s = rev (takeWhile isspace (rev s))"

fun every_lt_opens_token :: "pystr \<Rightarrow> bool" where
  "every_lt_opens_token [] = True"
| "every_lt_opens_token (c # cs) =
     ((c = 60 \<longrightarrow> startswith (c # cs) end_token) \<and> every_lt_opens_token cs)"

section \<open>Values exchanged with the outside\<close>

text \<open>
  An exception is kept as the text that \<open>str(e)\<close> gives. A finite float (a time
  stamp, a weight, a JSON number) is the real number that it stands for. The float
  subtraction \<open>time.time() - start_time\<close> can fall on the other side of the ceiling
  than the exact difference only when the start time lies strictly between 0 and 300,
  that is, for an interview started within 300 seconds of the epoch.
\<close>

datatype exn = Exception (message: pystr)

text \<open>
  What \<open>json.loads\<close> returns: Python keeps integers and floats apart, and a float
  may be infinite or not a number (from the literals \<open>Infinity\<close> and \<open>NaN\<close>, or from a
  number too large for a float, such as \<open>1e400\<close>). An object is an association list,
  looked up with \<open>map_of\<close>.
\<close>

datatype pyfloat = Finite real | PosInf | NegInf | NaN

datatype json =
    JNull
  | JBool bool
  | JInt int
  | JFloat pyfloat
  | JStr pystr
  | JArr "json list"
  | JObj "(pystr \<times> json) list"

type_synonym bytes = "8 word list"

text \<open>Truth value of a decoded JSON value (\<open>if not audio_url\<close>).\<close>

fun truthy :: "json \<Rightarrow> bool" where
  "truthy JNull = False"
| "truthy (JBool b) = b"
| "truthy (JInt n) = (n \<noteq> 0)"
| "truthy (JFloat (Finite x)) = (x \<noteq> 0)"
| "truthy (JFloat x) = True"
| "truthy (JStr s) = (s \<noteq> [])"
| "truthy (JArr xs) = (xs \<noteq> [])"
| "truthy (JObj kvs) = (kvs \<noteq> [])"

text \<open>\<open>data.get(key)\<close>: \<open>None\<close> for a missing key, AttributeError if \<open>data\<close> is no dict.\<close>

fun dict_get :: "json \<Rightarrow> pystr \<Rightarrow> exn + json" where
  "dict_get (JObj kvs) key = Inr (case map_of kvs key of None \<Rightarrow> JNull | Some v \<Rightarrow> v)"
| "dict_get v key = Inl (Exception (py ''AttributeError''))"

text \<open>\<open>data[key]\<close> with a string key: KeyError for a missing key, TypeError if \<open>data\<close> is no dict.\<close>

fun subscript :: "json \<Rightarrow> pystr \<Rightarrow> exn + json" where
  "subscript (JObj kvs) key =
     (case map_of kvs key of None \<Rightarrow> Inl (Exception (py ''KeyError'')) | Some v \<Rightarrow> Inr v)"
| "subscript v key = Inl (Exception (py ''TypeError''))"

text \<open>Truth value of an optional string (\<open>if not api_key\<close>): \<open>None\<close> and \<open>""\<close> are false.\<close>

definition is_set :: "pystr option \<Rightarrow> bool" where
  "is_set k = (case k of None \<Rightarrow> False | Some v \<Rightarrow> v \<noteq> [])"

text \<open>\<open>base64.b64encode(data).decode("utf-8")\<close>.\<close>

definition b64_char :: "nat \<Rightarrow> pychar" where
  "b64_char n =
     (if n < 26 then 65 + n
      else if n < 52 then 97 + (n - 26)
      else if n < 62 then 48 + (n - 52)
      else if n = 62 then 43
      else 47)"

fun b64encode :: "bytes \<Rightarrow> pystr" where
  "b64encode [] = []"
| "b64encode [a] =
     (let x = unat a
      in [b64_char (x div 4), b64_char ((x mod 4) * 16), 61, 61])"
| "b64encode [a, b] =
     (let x = unat a; y = unat b
      in [b64_char (x div 4), b64_char ((x mod 4) * 16 + y div 16),
          b64_char ((y mod 16) * 4), 61])"
| "b64encode (a # b # c # rest) =
     (let x = unat a; y = unat b; z = unat c
      in [b64_char (x div 4), b64_char ((x mod 4) * 16 + y div 16),
          b64_char ((y mod 16) * 4 + z div 64), b64_char (z mod 64)] @ b64encode rest)"

datatype msg_role = System | Assistant | User

type_synonym message = "msg_role \<times> pystr"

text \<open>
  Everything outside the process that one request can observe. The external services
  are given by their answers (\<open>Inl\<close>: the call raises). The template of the panel
  prompt, Python's formatting of numbers and values, and the text of the exception
  that a failing \<open>JSONResponse\<close> raises are parameters as well: no property below
  depends on their wording.
\<close>

record world =
  clock :: real
    \<comment> \<open>\<open>time.time()\<close>\<close>
  hr_guide :: pystr
    \<comment> \<open>the global \<open>HR_GUIDE\<close>\<close>
  openai_api_key :: "pystr option"
    \<comment> \<open>\<open>os.getenv("OPENAI_API_KEY")\<close>\<close>
  murf_api_key :: "pystr option"
    \<comment> \<open>\<open>config.MURF_API_KEY\<close>\<close>
  save_upload :: "exn option"
    \<comment> \<open>writing the uploaded audio to \<open>temp_audio/latest_answer.webm\<close>; \<open>None\<close>: no exception\<close>
  whisper :: "exn + pystr"
    \<comment> \<open>opening the file and \<open>client.audio.transcriptions.create(...).text\<close>\<close>
  chat_completion :: "message list \<Rightarrow> exn + pystr option"
    \<comment> \<open>\<open>client.chat.completions.create(...).choices[0].message.content\<close> of the panel call\<close>
  report_completion :: "pystr \<Rightarrow> exn + json"
    \<comment> \<open>the report call on a prompt, its content decoded by \<open>json.loads\<close>\<close>
  murf_post :: "pystr \<Rightarrow> pystr \<Rightarrow> exn + (int \<times> (exn + json))"
    \<comment> \<open>\<open>requests.post\<close> with a voice id and a text: status code and \<open>response.json()\<close>\<close>
  http_get :: "json \<Rightarrow> exn + (int \<times> bytes)"
    \<comment> \<open>\<open>requests.get(audio_url)\<close>: status code and content\<close>
  panel_prompt :: "pystr \<Rightarrow> pystr"
    \<comment> \<open>the system prompt template of \<open>build_panel_system_prompt\<close>, applied to the guide\<close>
  float_str :: "real \<Rightarrow> pystr"
    \<comment> \<open>\<open>str(x)\<close> of a finite float\<close>
  format_1f :: "real \<Rightarrow> pystr"
    \<comment> \<open>\<open>format(x, ".1f")\<close> of a finite float\<close>
  format_int_1f :: "int \<Rightarrow> exn + pystr"
    \<comment> \<open>\<open>format(n, ".1f")\<close> of an integer: OverflowError if it is too large for a float\<close>
  py_repr :: "json \<Rightarrow> pystr"
    \<comment> \<open>\<open>str(v)\<close> of a decoded JSON value that is not a string\<close>
  render_error :: exn
    \<comment> \<open>the exception that \<open>JSONResponse\<close> raises when the reply of the request does not render\<close>

text \<open>The calls that leave main.py, in the order in which a handler makes them.\<close>

datatype call =
    SaveUpload
  | Transcribe
  | PanelLLM "message list"
  | ReportLLM pystr
  | Synthesize pystr pystr

section \<open>Speech to text (stt\_handler.py)\<close>

record stt_result =
  transcript :: pystr
  confidence :: real

definition transcribe_file :: "world \<Rightarrow> exn + stt_result" where
  "transcribe_file w =
     (if \<not> is_set (openai_api_key w)
        then Inl (Exception (py ''OPENAI_API_KEY is not set in .env file''))
      else
        (case whisper w of
           Inl e \<Rightarrow> Inl (Exception (py ''OpenAI Transcription failed: '' @ message e))
         | Inr text \<Rightarrow> Inr \<lparr>transcript = strip text, confidence = 1\<rparr>))"

section \<open>Text to speech (tts\_handler.py)\<close>

definition VOICE_MAP :: "(pystr \<times> pystr) list" where
  "VOICE_MAP =
     [(py ''HR Manager'', py ''en-US-natalie''),
      (py ''Tech Lead'', py ''en-US-cooper''),
      (py ''Default'', py ''en-US-natalie'')]"

text \<open>
  \<open>VOICE_MAP.get(speaker_role, VOICE_MAP["Default"])\<close>. The key "Default" is in the
  map, so the innermost \<open>None\<close> case is never taken.
\<close>

definition voice_id :: "pystr \<Rightarrow> pystr" where
  "voice_id speaker_role =
     (case map_of VOICE_MAP speaker_role of
        Some v \<Rightarrow> v
      | None \<Rightarrow> (case map_of VOICE_MAP (py ''Default'') of Some d \<Rightarrow> d | None \<Rightarrow> []))"

text \<open>
  \<open>synthesize(text, speaker_role)\<close> returns bytes on every path: each failure inside the
  \<open>try\<close> block, and the missing key before it, returns \<open>b""\<close>.
\<close>

definition synthesize :: "world \<Rightarrow> pystr \<Rightarrow> pystr \<Rightarrow> bytes" where
  "synthesize w text speaker_role =
     (if \<not> is_set (murf_api_key w) then []
      else
        (let voice = voice_id speaker_role
         in case murf_post w voice text of
              Inl e \<Rightarrow> []
            | Inr (status_code, body) \<Rightarrow>
                if status_code \<noteq> 200 then []
                else
                  (case body of
                     Inl e \<Rightarrow> []
                   | Inr data \<Rightarrow>
                       (case dict_get data (py ''audioFile'') of
                          Inl e \<Rightarrow> []
                        | Inr audio_url \<Rightarrow>
                            if \<not> truthy audio_url then []
                            else
                              (case http_get w audio_url of
                                 Inl e \<Rightarrow> []
                               | Inr (audio_status, content) \<Rightarrow>
                                   if audio_status = 200 then content else [])))))"

section \<open>Session state and the handlers (main.py)\<close>

definition MAX_INTERVIEW_DURATION :: real where
  "MAX_INTERVIEW_DURATION = 300"

definition HR_COMPETENCIES :: "(pystr \<times> real) list" where
  "HR_COMPETENCIES =
     [(py ''Technical Knowledge'', 0.40),
      (py ''Communication Skills'', 0.30),
      (py ''Problem Solving'', 0.20),
      (py ''Cultural Fit'', 0.10)]"

definition INTERVIEWER :: pystr where
  "INTERVIEWER = py ''Interviewer''"

definition CANDIDATE :: pystr where
  "CANDIDATE = py ''Candidate''"

text \<open>An entry of the history: \<open>{"role": ..., "panelist": ..., "text": ...}\<close>.\<close>

record turn =
  role :: pystr
  panelist :: pystr
  turn_text :: pystr

record session =
  start_time :: real
  current_q_index :: int
  follow_up_count :: int
  last_question :: pystr
  history :: "turn list"

text \<open>The module-level \<open>session_state\<close>, as the process starts with it.\<close>

definition session_state :: session where
  "session_state =
     \<lparr>start_time = 0, current_q_index = 0, follow_up_count = 0,
      last_question = [], history = []\<rparr>"

definition build_panel_system_prompt :: "world \<Rightarrow> pystr" where
  "build_panel_system_prompt w = panel_prompt w (hr_guide w)"

fun history_messages :: "turn list \<Rightarrow> message list" where
  "history_messages [] = []"
| "history_messages (entry # entries) =
     (if role entry = INTERVIEWER then [(Assistant, turn_text entry)]
      else if role entry = CANDIDATE then [(User, turn_text entry)]
      else []) @ history_messages entries"

definition build_llm_messages_from_history :: "world \<Rightarrow> session \<Rightarrow> message list" where
  "build_llm_messages_from_history w s =
     (System, build_panel_system_prompt w) # history_messages (history s)"

definition generate_next_panel_turn :: "world \<Rightarrow> session \<Rightarrow> exn + pystr option" where
  "generate_next_panel_turn w s = chat_completion w (build_llm_messages_from_history w s)"

text \<open>Responses of the handlers; an \<open>ErrorResponse\<close> carries its status code.\<close>

datatype response =
    ChatResponse
      (user_transcript: pystr) (ai_response_text: pystr) (ai_audio_base64: pystr)
      (speaker_role: pystr) (is_end: bool) (report: "json option")
  | StartResponse (start_text: pystr) (audio_base64: pystr) (start_speaker_role: pystr)
  | ErrorResponse (error: pystr) (status_code: int)

text \<open>
  \<open>JSONResponse(content)\<close> renders its content at once, with
  \<open>json.dumps(content, ensure_ascii=False, allow_nan=False).encode("utf-8")\<close>. That
  raises for a float that is not finite, and for a string with a surrogate code point
  (55296 to 57343), which UTF-8 cannot encode. The keys of the replies are ASCII
  constants. The text of an exception is taken to be encodable, so that the error
  response of an \<open>except\<close> clause always renders.
\<close>

definition encodable :: "pystr \<Rightarrow> bool" where
  "encodable str = list_all (\<lambda>c. c < 55296 \<or> 57343 < c) str"

fun json_renders :: "json \<Rightarrow> bool" where
  "json_renders JNull = True"
| "json_renders (JBool b) = True"
| "json_renders (JInt n) = True"
| "json_renders (JFloat (Finite x)) = True"
| "json_renders (JFloat x) = False"
| "json_renders (JStr str) = encodable str"
| "json_renders (JArr vs) = list_all json_renders vs"
| "json_renders (JObj kvs) = list_all (\<lambda>kv. encodable (fst kv) \<and> json_renders (snd kv)) kvs"

fun renders :: "response \<Rightarrow> bool" where
  "renders (ChatResponse ut reply audio speaker fin rep) =
     (encodable ut \<and> encodable reply \<and> encodable audio \<and> encodable speaker \<and>
      (case rep of None \<Rightarrow> True | Some report_json \<Rightarrow> json_renders report_json))"
| "renders (StartResponse reply audio speaker) =
     (encodable reply \<and> encodable audio \<and> encodable speaker)"
| "renders (ErrorResponse e code) = True"

text \<open>\<open>sep.join(parts)\<close> and the transcript line of a turn.\<close>

fun join :: "pystr \<Rightarrow> pystr list \<Rightarrow> pystr" where
  "join sep [] = []"
| "join sep [l] = l"
| "join sep (l # ls) = l @ sep @ join sep ls"

definition transcript_line :: "turn \<Rightarrow> pystr" where
  "transcript_line entry =
     role entry
       @ (if role entry = INTERVIEWER then py '' - '' @ panelist entry else [])
       @ py '': '' @ turn_text entry"

text \<open>The loop over \<open>reversed(history)\<close> that stops at the first Candidate entry.\<close>

fun first_candidate_text :: "turn list \<Rightarrow> pystr" where
  "first_candidate_text [] = []"
| "first_candidate_text (entry # entries) =
     (if role entry = CANDIDATE then turn_text entry else first_candidate_text entries)"

definition last_candidate_text :: "session \<Rightarrow> pystr" where
  "last_candidate_text s = first_candidate_text (rev (history s))"

text \<open>
  The closing message: \<open>report_json['overall_score']\<close> formatted with \<open>.1f\<close> and
  \<open>report_json['recommendation']\<close> formatted with \<open>str\<close>. Any step may raise.
\<close>

fun format_score :: "world \<Rightarrow> json \<Rightarrow> exn + pystr" where
  "format_score w (JInt n) = format_int_1f w n"
| "format_score w (JBool b) = format_int_1f w (if b then 1 else 0)"
| "format_score w (JFloat (Finite x)) = Inr (format_1f w x)"
| "format_score w (JFloat PosInf) = Inr (py ''inf'')"
| "format_score w (JFloat NegInf) = Inr (py ''-inf'')"
| "format_score w (JFloat NaN) = Inr (py ''nan'')"
| "format_score w (JStr v) = Inl (Exception (py ''ValueError''))"
| "format_score w v = Inl (Exception (py ''TypeError''))"

fun format_str :: "world \<Rightarrow> json \<Rightarrow> pystr" where
  "format_str w (JStr v) = v"
| "format_str w v = py_repr w v"

definition closing_message :: "world \<Rightarrow> json \<Rightarrow> exn + pystr" where
  "closing_message w report_json =
     (case subscript report_json (py ''overall_score'') of
        Inl e \<Rightarrow> Inl e
      | Inr overall \<Rightarrow>
          (case format_score w overall of
             Inl e \<Rightarrow> Inl e
           | Inr score \<Rightarrow>
               (case subscript report_json (py ''recommendation'') of
                  Inl e \<Rightarrow> Inl e
                | Inr recommendation \<Rightarrow>
                    Inr (py ''Interview complete. Overall Score: '' @ score @ py ''/10. ''
                         @ py ''Result: '' @ format_str w recommendation @ py ''.''))))"

text \<open>
  The weights as the report prompt shows them:
  \<open>", ".join([f"{k} ({v*100}%)" for k, v in HR_COMPETENCIES.items()])\<close>. The four
  float products are 40.0, 30.0, 20.0 and 10.0, as the exact ones are.
\<close>

definition weights_str :: "world \<Rightarrow> pystr" where
  "weights_str w =
     join (py '', '')
       (map (\<lambda>(k, v). k @ py '' ('' @ float_str w (v * 100) @ py ''%)'') HR_COMPETENCIES)"

text \<open>
  The fixed text of the report prompt, line by line, in four pieces: before the guide,
  before the transcript, before the weights, and the task behind them. Code point
  8211 is the dash of the source, 34 the double quote.
\<close>

definition REPORT_PROMPT_HEAD :: pystr where
  "REPORT_PROMPT_HEAD =
     join [10]
       [[],
        py ''You are a Senior HR hiring evaluator.'',
        [],
        py ''Your job is to produce a rigorous evaluation for the specific role defined in '',
        py ''the HR GUIDE PDF below.'',
        [],
        py ''This PDF defines:'',
        py ''- role expectations'',
        py ''- required skills and competencies'',
        py ''- domain / business context'',
        py ''- red flags'',
        py ''- cultural expectations'',
        [],
        py ''DO NOT reveal or quote the PDF, but strictly use it for reasoning.'',
        [],
        py ''================= HR GUIDE (DO NOT REVEAL) ================='',
        []]"

definition REPORT_PROMPT_TRANSCRIPT :: pystr where
  "REPORT_PROMPT_TRANSCRIPT =
     join [10]
       [[],
        py ''================================================================='',
        [],
        py ''INTERVIEW TRANSCRIPT (Panel: HR Manager + a Tech Lead, Candidate):'',
        []]"

definition REPORT_PROMPT_CRITERIA :: pystr where
  "REPORT_PROMPT_CRITERIA =
     join [10]
       [[],
        [],
        py ''EVALUATION CRITERIA (Base weights):'',
        []]"

definition REPORT_PROMPT_TASK :: pystr where
  "REPORT_PROMPT_TASK =
     join [10]
       [[],
        [],
        py ''TASK:'',
        py ''1. Score each competency from 0'' @ [8211] @ py ''10 based on the transcript AND HR guide expectations:'',
        py ''   - Technical Knowledge'',
        py ''   - Communication Skills'',
        py ''   - Problem Solving'',
        py ''   - Cultural Fit'',
        py ''2. Compute a weighted overall score (0'' @ [8211] @ py ''10) using the given weights.'',
        py ''3. Provide a recommendation: '' @ [34] @ py ''Strong Hire'' @ [34] @ py '', '' @ [34] @ py ''Hire'' @ [34] @ py '', '' @ [34] @ py ''Weak Hire'' @ [34] @ py '', or '' @ [34] @ py ''No Hire'' @ [34] @ py ''.'',
        py ''4. List EXACTLY 3 Pros and EXACTLY 3 Cons, aligned with the role & HR guide.'',
        py ''5. Write a short summary tailored to THIS ROLE and COMPANY CONTEXT'',
        py ''   (use domain-relevant language from the HR guide where appropriate).'',
        [],
        py ''OUTPUT STRICT JSON (NO EXTRA TEXT):'',
        py ''{'',
        py ''  '' @ [34] @ py ''scores'' @ [34] @ py '': {'',
        py ''    '' @ [34] @ py ''Technical Knowledge'' @ [34] @ py '': 0,'',
        py ''    '' @ [34] @ py ''Communication Skills'' @ [34] @ py '': 0,'',
        py ''    '' @ [34] @ py ''Problem Solving'' @ [34] @ py '': 0,'',
        py ''    '' @ [34] @ py ''Cultural Fit'' @ [34] @ py '': 0'',
        py ''  },'',
        py ''  '' @ [34] @ py ''overall_score'' @ [34] @ py '': 0.0,'',
        py ''  '' @ [34] @ py ''recommendation'' @ [34] @ py '': '' @ [34] @ py ''No Hire'' @ [34] @ py '','',
        py ''  '' @ [34] @ py ''pros'' @ [34] @ py '': ['' @ [34] @ py ''...'' @ [34] @ py '', '' @ [34] @ py ''...'' @ [34] @ py '', '' @ [34] @ py ''...'' @ [34] @ py ''],'',
        py ''  '' @ [34] @ py ''cons'' @ [34] @ py '': ['' @ [34] @ py ''...'' @ [34] @ py '', '' @ [34] @ py ''...'' @ [34] @ py '', '' @ [34] @ py ''...'' @ [34] @ py ''],'',
        py ''  '' @ [34] @ py ''summary'' @ [34] @ py '': '' @ [34] @ py ''...'' @ [34],
        py ''}'',
        []]"

definition report_prompt :: "world \<Rightarrow> session \<Rightarrow> pystr" where
  "report_prompt w s =
     (let transcript_text = join [10] (map transcript_line (history s))
      in REPORT_PROMPT_HEAD @ hr_guide w @ REPORT_PROMPT_TRANSCRIPT @ transcript_text
           @ REPORT_PROMPT_CRITERIA @ weights_str w @ REPORT_PROMPT_TASK)"

text \<open>
  \<open>generate_final_report()\<close> reads the session and does not change it; it returns the
  response and the calls made. Every exception of its \<open>try\<close> block, that of rendering
  the reply included, ends in the same error response.
\<close>

definition generate_final_report :: "world \<Rightarrow> session \<Rightarrow> response \<times> call list" where
  "generate_final_report w s =
     (let last_candidate = last_candidate_text s;
          prompt = report_prompt w s
      in case report_completion w prompt of
           Inl e \<Rightarrow> (ErrorResponse (py ''Failed to generate report'') 500, [ReportLLM prompt])
         | Inr report_json \<Rightarrow>
             (case closing_message w report_json of
                Inl e \<Rightarrow>
                  (ErrorResponse (py ''Failed to generate report'') 500, [ReportLLM prompt])
              | Inr closing_msg \<Rightarrow>
                  (let audio_bytes = synthesize w closing_msg HR_MANAGER;
                       audio_base64 = b64encode audio_bytes;
                       reply = ChatResponse last_candidate closing_msg audio_base64 HR_MANAGER
                                 True (Some report_json)
                   in (if renders reply then reply
                       else ErrorResponse (py ''Failed to generate report'') 500,
                       [ReportLLM prompt, Synthesize closing_msg HR_MANAGER]))))"

text \<open>
  The content of a completion may be \<open>None\<close>; \<open>None.strip()\<close> raises an AttributeError
  (code point 39 is the single quote).
\<close>

definition NONE_HAS_NO_STRIP :: exn where
  "NONE_HAS_NO_STRIP =
     Exception (39 # py ''NoneType'' @ 39 # py '' object has no attribute ''
                @ 39 # py ''strip'' @ [39])"

text \<open>The reply to silence; code point 8217 is the apostrophe that the source uses.\<close>

definition CLARIFICATION :: pystr where
  "CLARIFICATION = py ''Come again? I didn'' @ [8217] @ py ''t hear anything.''"

text \<open>
  \<open>POST /chat\<close>. The whole body is inside \<open>try ... except Exception\<close>, so the handler
  always returns a response; it returns the session as it leaves it and the calls made.
  A reply that does not render raises inside the \<open>try\<close> block as well.
\<close>

definition chat :: "world \<Rightarrow> session \<Rightarrow> response \<times> session \<times> call list" where
  "chat w s =
     (let elapsed_time = clock w - start_time s
      in if elapsed_time > MAX_INTERVIEW_DURATION then
           (let (resp, calls) = generate_final_report w s in (resp, s, calls))
         else
           (case save_upload w of
              Some e \<Rightarrow> (ErrorResponse (message e) 500, s, [SaveUpload])
            | None \<Rightarrow>
                (case transcribe_file w of
                   Inl e \<Rightarrow> (ErrorResponse (message e) 500, s, [SaveUpload, Transcribe])
                 | Inr stt \<Rightarrow>
                     (let user_text = strip (transcript stt)
                      in if user_text = [] then
                           (let ai_text_clean = CLARIFICATION;
                                speaker = HR_MANAGER;
                                s1 = s\<lparr>history := history s @
                                       [\<lparr>role = INTERVIEWER, panelist = speaker,
                                         turn_text = ai_text_clean\<rparr>]\<rparr>;
                                audio_bytes = synthesize w ai_text_clean speaker;
                                audio_base64 = b64encode audio_bytes;
                                reply = ChatResponse [] ai_text_clean audio_base64 speaker
                                          False None
                            in (if renders reply then reply
                                else ErrorResponse (message (render_error w)) 500,
                                s1,
                                [SaveUpload, Transcribe, Synthesize ai_text_clean speaker]))
                         else
                           (let s1 = s\<lparr>history := history s @
                                       [\<lparr>role = CANDIDATE, panelist = [],
                                         turn_text = user_text\<rparr>]\<rparr>;
                                messages = build_llm_messages_from_history w s1
                            in case generate_next_panel_turn w s1 of
                                 Inl e \<Rightarrow>
                                   (ErrorResponse (message e) 500, s1,
                                    [SaveUpload, Transcribe, PanelLLM messages])
                               | Inr None \<Rightarrow>
                                   (ErrorResponse (message NONE_HAS_NO_STRIP) 500, s1,
                                    [SaveUpload, Transcribe, PanelLLM messages])
                               | Inr (Some content) \<Rightarrow>
                                   (let ai_text_raw = strip content;
                                        (speaker, ai_text_clean, interview_done) =
                                          parse_panel_speaker_and_text ai_text_raw;
                                        s2 = (if ai_text_clean \<noteq> [] then
                                                s1\<lparr>history := history s1 @
                                                     [\<lparr>role = INTERVIEWER, panelist = speaker,
                                                       turn_text = ai_text_clean\<rparr>],
                                                   last_question := ai_text_clean\<rparr>
                                              else s1)
                                    in if interview_done then
                                         (let (resp, calls) = generate_final_report w s2
                                          in (resp, s2,
                                              [SaveUpload, Transcribe, PanelLLM messages] @ calls))
                                       else
                                         (let audio_bytes = synthesize w ai_text_clean speaker;
                                              audio_base64 = b64encode audio_bytes;
                                              reply = ChatResponse user_text ai_text_clean
                                                        audio_base64 speaker False None
                                          in (if renders reply then reply
                                              else ErrorResponse (message (render_error w)) 500,
                                              s2,
                                              [SaveUpload, Transcribe, PanelLLM messages,
                                               Synthesize ai_text_clean speaker]))))))))"

text \<open>
  \<open>GET /start\<close> has no \<open>try\<close> block: an exception of the panel call leaves the handler
  (\<open>Inl\<close>) after the session has been reset, and that of a reply that does not render
  leaves it after the turn has been appended.
\<close>

definition start_interview_endpoint ::
    "world \<Rightarrow> session \<Rightarrow> (exn + response) \<times> session \<times> call list" where
  "start_interview_endpoint w s =
     (let s1 = s\<lparr>start_time := clock w, history := [], current_q_index := 0,
                follow_up_count := 0, last_question := []\<rparr>;
          messages = build_llm_messages_from_history w s1
      in case generate_next_panel_turn w s1 of
           Inl e \<Rightarrow> (Inl e, s1, [PanelLLM messages])
         | Inr None \<Rightarrow> (Inl NONE_HAS_NO_STRIP, s1, [PanelLLM messages])
         | Inr (Some ai_text_raw) \<Rightarrow>
             (let (speaker, ai_text_clean, interview_done) =
                    parse_panel_speaker_and_text ai_text_raw;
                  s2 = s1\<lparr>history := history s1 @
                         [\<lparr>role = INTERVIEWER, panelist = speaker, turn_text = ai_text_clean\<rparr>],
                       last_question := ai_text_clean\<rparr>;
                  audio_bytes = synthesize w ai_text_clean speaker;
                  audio_base64 = b64encode audio_bytes;
                  reply = StartResponse ai_text_clean audio_base64 speaker
              in (if renders reply then Inr reply else Inl (render_error w), s2,
                  [PanelLLM messages, Synthesize ai_text_clean speaker])))"

text \<open>
  The sessions that the process can reach: it starts with \<open>session_state\<close>, and every
  request to \<open>/start\<close> or \<open>/chat\<close>, in any world, leads from one session to the next. The
  other two endpoints do not touch the session.
\<close>

inductive reachable :: "session \<Rightarrow> bool" where
  initial: "reachable session_state"
| start: "reachable s \<Longrightarrow> start_interview_endpoint w s = (r, s', calls) \<Longrightarrow> reachable s'"
| chat: "reachable s \<Longrightarrow> chat w s = (r, s', calls) \<Longrightarrow> reachable s'"

section \<open>Notions of the specification\<close>

text \<open>
  A well-formed turn: the role is Candidate or Interviewer; a Candidate turn has the
  empty speaker identity, an Interviewer turn the identity "HR Manager" or "Tech Lead".
\<close>

definition turn_ok :: "turn \<Rightarrow> bool" where
  "turn_ok t \<longleftrightarrow>
     (role t = CANDIDATE \<and> panelist t = []) \<or>
     (role t = INTERVIEWER \<and> (panelist t = HR_MANAGER \<or> panelist t = TECH_LEAD))"

text \<open>
  The ways in which speech synthesis can fail for a text and a speaker: the key is
  missing, the request raises, its status is not 200, its body does not decode, the
  body has no usable audio URL, or the download raises or has a status other than 200.
\<close>

definition tts_failure :: "world \<Rightarrow> pystr \<Rightarrow> pystr \<Rightarrow> bool" where
  "tts_failure w text speaker \<longleftrightarrow>
     \<not> is_set (murf_api_key w) \<or>
     (case murf_post w (voice_id speaker) text of
        Inl e \<Rightarrow> True
      | Inr (status, body) \<Rightarrow>
          status \<noteq> 200 \<or>
          (case body of
             Inl e \<Rightarrow> True
           | Inr data \<Rightarrow>
               (case dict_get data (py ''audioFile'') of
                  Inl e \<Rightarrow> True
                | Inr audio_url \<Rightarrow>
                    \<not> truthy audio_url \<or>
                    (case http_get w audio_url of
                       Inl e \<Rightarrow> True
                     | Inr (audio_status, content) \<Rightarrow> audio_status \<noteq> 200))))"

text \<open>
  The weighted overall score as the specification words it: the sum, over the four
  competencies, of weight times score, read from the "scores" object of a report; and
  the "overall\_score" field of the report.
\<close>

fun number_of :: "json \<Rightarrow> real option" where
  "number_of (JInt n) = Some (real_of_int n)"
| "number_of (JFloat (Finite x)) = Some x"
| "number_of v = None"

definition field_of :: "json \<Rightarrow> pystr \<Rightarrow> json option" where
  "field_of v key = (case v of JObj kvs \<Rightarrow> map_of kvs key | _ \<Rightarrow> None)"

fun weighted_sum :: "(pystr \<times> real) list \<Rightarrow> json \<Rightarrow> real option" where
  "weighted_sum [] scores = Some 0"
| "weighted_sum ((name, weight) # rest) scores =
     (case Option.bind (field_of scores name) number_of of
        None \<Rightarrow> None
      | Some x \<Rightarrow> map_option (\<lambda>acc. weight * x + acc) (weighted_sum rest scores))"

definition weighted_overall_score :: "json \<Rightarrow> real option" where
  "weighted_overall_score rep =
     Option.bind (field_of rep (py ''scores'')) (weighted_sum HR_COMPETENCIES)"

definition overall_score :: "json \<Rightarrow> real option" where
  "overall_score rep = Option.bind (field_of rep (py ''overall_score'')) number_of"

section \<open>A sample world\<close>

text \<open>
  The scenario of the specification: the candidate's answer is transcribed, the panel
  replies with a Tech Lead question, and speech synthesis has no key. The report call
  returns a report whose overall score, 0, is not the weighted sum of its scores. The
  only numbers that are formatted are that 0 and the four weights times 100. This
  world is the concrete input of the examples below.
\<close>

definition sample_report :: json where
  "sample_report =
     JObj [(py ''scores'',
              JObj [(py ''Technical Knowledge'', JInt 10), (py ''Communication Skills'', JInt 10),
                    (py ''Problem Solving'', JInt 10), (py ''Cultural Fit'', JInt 10)]),
           (py ''overall_score'', JFloat (Finite 0)),
           (py ''recommendation'', JStr (py ''No Hire'')),
           (py ''pros'', JArr [JStr (py ''a''), JStr (py ''b''), JStr (py ''c'')]),
           (py ''cons'', JArr [JStr (py ''d''), JStr (py ''e''), JStr (py ''f'')]),
           (py ''summary'', JStr (py ''s''))]"

definition sample_world :: world where
  "sample_world =
     \<lparr>clock = 1000,
      hr_guide = py ''Backend engineer'',
      openai_api_key = Some (py ''sk-test''),
      murf_api_key = None,
      save_upload = None,
      whisper = Inr (py ''I have five years of experience in backend systems''),
      chat_completion =
        (\<lambda>messages. Inr (Some (py ''[TECH_LEAD] Tell me about a scaling challenge you solved.''))),
      report_completion = (\<lambda>prompt. Inr sample_report),
      murf_post = (\<lambda>voice text. Inl (Exception (py ''ConnectionError''))),
      http_get = (\<lambda>url. Inl (Exception (py ''ConnectionError''))),
      panel_prompt = (\<lambda>guide. guide),
      float_str = (\<lambda>x. if x = 40 then py ''40.0'' else if x = 30 then py ''30.0''
                        else if x = 20 then py ''20.0'' else py ''10.0''),
      format_1f = (\<lambda>x. py ''0.0''),
      format_int_1f = (\<lambda>n. Inr (py ''0.0'')),
      py_repr = (\<lambda>v. []),
      render_error = Exception (py ''UnicodeEncodeError'')\<rparr>"

text \<open>A session that was started at time 900 of the sample clock.\<close>

definition sample_session :: session where
  "sample_session = session_state\<lparr>start_time := 900\<rparr>"

section \<open>Facts about strings\<close>

lemma leading_space_lstrip: "leading_space (lstrip s) = []"
  by (induction s) (auto simp: leading_space_def lstrip_def)

lemma lstrip_eq_Nil_or: "lstrip s = [] \<or> \<not> isspace (hd (lstrip s))"
  unfolding lstrip_def using hd_dropWhile by blast

lemma rstrip_eq_Nil_or: "rstrip s = [] \<or> \<not> isspace (last (rstrip s))"
proof -
  have "dropWhile isspace (rev s) = [] \<or> \<not> isspace (hd (dropWhile isspace (rev s)))"
    using hd_dropWhile by blast
  then show ?thesis by (auto simp: rstrip_def last_rev)
qed

lemma lstrip_id: "s = [] \<or> \<not> isspace (hd s) \<Longrightarrow> lstrip s = s"
  by (cases s) (auto simp: lstrip_def)

lemma rstrip_id: "s = [] \<or> \<not> isspace (last s) \<Longrightarrow> rstrip s = s"
proof -
  assume a: "s = [] \<or> \<not> isspace (last s)"
  have "dropWhile isspace (rev s) = rev s"
  proof (cases "rev s")
    case Nil then show ?thesis by simp
  next
    case (Cons c cs)
    then have "s \<noteq> []" by auto
    moreover have "last s = c" using Cons by (metis last_rev list.sel(1) rev_rev_ident)
    ultimately show ?thesis using a Cons by simp
  qed
  then show ?thesis by (simp add: rstrip_def)
qed

lemma suffix_lstrip: "suffix (lstrip s) s"
  by (simp add: lstrip_def suffix_dropWhile)

lemma last_lstrip: "lstrip s \<noteq> [] \<Longrightarrow> last (lstrip s) = last s"
  unfolding lstrip_def by (induction s) (auto split: if_splits)

lemma strip_last: "strip s = [] \<or> \<not> isspace (last (strip s))"
proof (cases "strip s = []")
  case True then show ?thesis by simp
next
  case False
  then have ne: "lstrip (rstrip s) \<noteq> []" by (simp add: strip_def)
  then have "rstrip s \<noteq> []" by (auto simp: lstrip_def)
  then have "\<not> isspace (last (rstrip s))" using rstrip_eq_Nil_or by blast
  then show ?thesis using last_lstrip [OF ne] by (simp add: strip_def)
qed

lemma strip_hd: "strip s = [] \<or> \<not> isspace (hd (strip s))"
  unfolding strip_def by (rule lstrip_eq_Nil_or)

lemma leading_space_strip: "leading_space (strip s) = []"
  by (simp add: strip_def leading_space_lstrip)

lemma trailing_space_strip: "trailing_space (strip s) = []"
proof (cases "strip s = []")
  case True then show ?thesis by (simp add: trailing_space_def)
next
  case False
  then have l: "\<not> isspace (last (strip s))" using strip_last by blast
  from False obtain c cs where r: "rev (strip s) = c # cs" by (cases "rev (strip s)") auto
  then have "last (strip s) = c" by (metis last_rev list.sel(1) rev_rev_ident)
  then show ?thesis using l r by (simp add: trailing_space_def)
qed

lemma strip_id: "(s = [] \<or> \<not> isspace (hd s)) \<Longrightarrow> (s = [] \<or> \<not> isspace (last s)) \<Longrightarrow> strip s = s"
  by (simp add: strip_def rstrip_id lstrip_id)

lemma strip_strip: "strip (strip s) = strip s"
  by (rule strip_id [OF strip_hd strip_last])

lemma sublist_lstrip:
  assumes "sublist t s" "t \<noteq> []" "\<not> isspace (hd t)"
  shows "sublist t (lstrip s)"
  using assms(1)
proof (induction s)
  case Nil
  then show ?case by (simp add: lstrip_def)
next
  case (Cons c cs)
  show ?case
  proof (cases "isspace c")
    case False
    then show ?thesis using Cons.prems by (simp add: lstrip_def)
  next
    case True
    have "\<not> prefix t (c # cs)"
    proof
      assume "prefix t (c # cs)"
      then have "hd t = c" using assms(2) by (cases t) auto
      then show False using True assms(3) by simp
    qed
    then have "sublist t cs" using Cons.prems by (simp add: sublist_Cons_right)
    then have "sublist t (lstrip cs)" by (rule Cons.IH)
    then show ?thesis using True by (simp add: lstrip_def)
  qed
qed

lemma sublist_rstrip:
  assumes "sublist t s" "t \<noteq> []" "\<not> isspace (last t)"
  shows "sublist t (rstrip s)"
proof -
  have "sublist (rev t) (rev s)" using assms(1) by simp
  moreover have "rev t \<noteq> []" using assms(2) by simp
  moreover have "\<not> isspace (hd (rev t))" using assms(2,3) by (simp add: hd_rev)
  ultimately have "sublist (rev t) (lstrip (rev s))" by (rule sublist_lstrip)
  then have "sublist (rev t) (rev (rstrip s))" by (simp add: rstrip_def lstrip_def)
  then show ?thesis by simp
qed

lemma sublist_strip:
  assumes "sublist t s" "t \<noteq> []" "\<not> isspace (hd t)" "\<not> isspace (last t)"
  shows "sublist t (strip s)"
  unfolding strip_def using assms by (intro sublist_lstrip sublist_rstrip)

lemma sublist_behind_tag:
  assumes "sublist t (tag @ rest)" "t \<noteq> []" "hd t \<notin> set tag"
  shows "sublist t rest"
  using assms(1,3)
proof (induction tag)
  case Nil
  then show ?case by simp
next
  case (Cons c cs)
  have "\<not> prefix t (c # cs @ rest)"
  proof
    assume "prefix t (c # cs @ rest)"
    then have "hd t = c" using assms(2) by (cases t) auto
    then show False using Cons.prems(2) by simp
  qed
  then have "sublist t (cs @ rest)" using Cons.prems(1) by (simp add: sublist_Cons_right)
  then show ?case using Cons.IH Cons.prems(2) by simp
qed

lemma replace_absent:
  assumes "old \<noteq> []" "\<not> sublist old s"
  shows "replace old new s = s"
  using assms(2)
proof (induction s)
  case Nil
  then show ?case using assms(1) by simp
next
  case (Cons c cs)
  then have "\<not> prefix old (c # cs)" and "\<not> sublist old cs"
    by (auto simp: sublist_Cons_right)
  then show ?case using assms(1) Cons.IH by simp
qed

lemma sublist_suffix_trans: "sublist t u \<Longrightarrow> suffix u s \<Longrightarrow> sublist t s"
  by (meson sublist_order.order_trans suffix_imp_sublist)

lemma end_token_chars: "end_token = [60, 69, 78, 68, 95, 73, 78, 84, 69, 82, 86, 73, 69, 87, 62]"
  by (simp add: end_token_def py_def)

lemma end_token_nonempty: "end_token \<noteq> []"
  by (simp add: end_token_chars)

lemma end_token_hd: "hd end_token = 60"
  by (simp add: end_token_chars)

lemma end_token_no_space: "c \<in> set end_token \<Longrightarrow> \<not> isspace c"
  by (auto simp: end_token_chars isspace_def)

lemma end_token_ends: "\<not> isspace (hd end_token)" "\<not> isspace (last end_token)"
  by (simp_all add: end_token_chars isspace_def)

lemma lt_not_in_tags: "60 \<notin> set HR_MANAGER_TAG" "60 \<notin> set TECH_LEAD_TAG"
  by (simp_all add: HR_MANAGER_TAG_def TECH_LEAD_TAG_def py_def)

lemma tags_differ: "\<not> prefix HR_MANAGER_TAG (TECH_LEAD_TAG @ x)"
  by (simp add: HR_MANAGER_TAG_def TECH_LEAD_TAG_def py_def)

lemma every_lt_suffix: "every_lt_opens_token (ps @ s) \<Longrightarrow> every_lt_opens_token s"
  by (induction ps) auto

lemma prefix_before_space:
  assumes "prefix t (ys @ ws)" "\<forall>c\<in>set t. \<not> isspace c" "\<forall>c\<in>set ws. isspace c"
  shows "prefix t ys"
proof -
  from assms(1) consider "prefix t ys" | us where "t = ys @ us" "prefix us ws"
    by (auto simp: prefix_append)
  then show ?thesis
  proof cases
    case 1 then show ?thesis .
  next
    case 2
    show ?thesis
    proof (cases us)
      case Nil then show ?thesis using 2 by simp
    next
      case (Cons u us')
      then have "u \<in> set t" using 2 by simp
      moreover have "u \<in> set ws" using 2 Cons by (auto simp: prefix_def)
      ultimately show ?thesis using assms(2,3) by blast
    qed
  qed
qed

lemma every_lt_before_space:
  assumes "\<forall>c\<in>set ws. isspace c"
  shows "every_lt_opens_token (xs @ ws) \<Longrightarrow> every_lt_opens_token xs"
proof (induction xs)
  case Nil then show ?case by simp
next
  case (Cons c cs)
  have "prefix end_token (c # cs)" if "c = 60"
  proof -
    have "prefix end_token ((c # cs) @ ws)" using Cons.prems that by (simp add: startswith_def)
    then show ?thesis using prefix_before_space assms end_token_no_space by blast
  qed
  then show ?case using Cons by (simp add: startswith_def)
qed

lemma rstrip_decomp: "\<exists>ws. s = rstrip s @ ws \<and> (\<forall>c\<in>set ws. isspace c)"
proof -
  have "rev s = takeWhile isspace (rev s) @ dropWhile isspace (rev s)" by simp
  then have "s = rev (dropWhile isspace (rev s)) @ rev (takeWhile isspace (rev s))"
    by (metis rev_append rev_rev_ident)
  moreover have "\<forall>c\<in>set (rev (takeWhile isspace (rev s))). isspace c"
    by (auto dest: set_takeWhileD)
  ultimately show ?thesis unfolding rstrip_def by blast
qed

lemma lstrip_decomp: "\<exists>ws. s = ws @ lstrip s"
  unfolding lstrip_def by (metis takeWhile_dropWhile_id)

lemma every_lt_rstrip: "every_lt_opens_token s \<Longrightarrow> every_lt_opens_token (rstrip s)"
  using rstrip_decomp [of s] every_lt_before_space by metis

lemma every_lt_lstrip: "every_lt_opens_token s \<Longrightarrow> every_lt_opens_token (lstrip s)"
  using lstrip_decomp [of s] every_lt_suffix by metis

lemma every_lt_strip: "every_lt_opens_token s \<Longrightarrow> every_lt_opens_token (strip s)"
  by (simp add: strip_def every_lt_rstrip every_lt_lstrip)

lemma every_lt_drop: "every_lt_opens_token s \<Longrightarrow> every_lt_opens_token (drop n s)"
  using every_lt_suffix [of "take n s" "drop n s"] by simp

lemma replace_removes_lt:
  "every_lt_opens_token s \<Longrightarrow> 60 \<notin> set (replace end_token [] s)"
proof (induction s rule: length_induct)
  case (1 s)
  show ?case
  proof (cases s)
    case Nil then show ?thesis by simp
  next
    case (Cons c cs)
    show ?thesis
    proof (cases "prefix end_token (c # cs)")
      case True
      have "length (drop (length end_token) s) < length s"
        using Cons end_token_nonempty by simp
      moreover have "every_lt_opens_token (drop (length end_token) s)"
        using "1.prems" by (rule every_lt_drop)
      ultimately have "60 \<notin> set (replace end_token [] (drop (length end_token) s))"
        using "1.IH" by blast
      then show ?thesis using True Cons end_token_nonempty by simp
    next
      case False
      then have "c \<noteq> 60" using "1.prems" Cons by (auto simp: startswith_def)
      moreover have "60 \<notin> set (replace end_token [] cs)"
        using "1.IH" "1.prems" Cons by simp
      ultimately show ?thesis using False Cons end_token_nonempty by simp
    qed
  qed
qed

lemma set_strip_subset: "set (strip s) \<subseteq> set s"
proof -
  have "set (rstrip s) \<subseteq> set s"
    unfolding rstrip_def using set_dropWhileD by fastforce
  moreover have "set (lstrip (rstrip s)) \<subseteq> set (rstrip s)"
    unfolding lstrip_def using set_dropWhileD by fastforce
  ultimately show ?thesis by (auto simp: strip_def)
qed

lemma contains_end_token_lt: "contains s end_token \<Longrightarrow> 60 \<in> set s"
proof -
  assume "contains s end_token"
  then have "set end_token \<subseteq> set s" unfolding contains_def by (rule set_mono_sublist)
  then show ?thesis by (auto simp: end_token_chars)
qed

section \<open>The parser and the end token\<close>

lemma contains_strip:
  "contains s end_token \<Longrightarrow> contains (strip s) end_token"
  unfolding contains_def
  by (rule sublist_strip) (simp_all add: end_token_nonempty end_token_ends)

lemma contains_behind_tag:
  assumes "contains s end_token" "prefix tag s" "60 \<notin> set tag"
  shows "contains (lstrip (drop (length tag) s)) end_token"
proof -
  from assms(2) obtain rest where s: "s = tag @ rest" by (auto simp: prefix_def)
  have "sublist end_token rest"
    using assms(1,3) unfolding s contains_def
    by (intro sublist_behind_tag [of end_token tag rest]) (simp_all add: end_token_nonempty end_token_hd)
  then have "sublist end_token (lstrip rest)"
    by (rule sublist_lstrip) (simp_all add: end_token_nonempty end_token_ends)
  then show ?thesis by (simp add: s contains_def)
qed

text \<open>The three branches of the parser, each with its result.\<close>

lemma parse_unfold:
  "parse_panel_speaker_and_text raw =
     (if startswith (strip raw) HR_MANAGER_TAG
        then (HR_MANAGER,
              strip (replace end_token [] (lstrip (drop (length HR_MANAGER_TAG) (strip raw)))),
              contains (lstrip (drop (length HR_MANAGER_TAG) (strip raw))) end_token)
      else if startswith (strip raw) TECH_LEAD_TAG
        then (TECH_LEAD,
              strip (replace end_token [] (lstrip (drop (length TECH_LEAD_TAG) (strip raw)))),
              contains (lstrip (drop (length TECH_LEAD_TAG) (strip raw))) end_token)
      else (HR_MANAGER, strip (replace end_token [] (strip raw)), contains (strip raw) end_token))"
  by (simp add: parse_panel_speaker_and_text_def Let_def)

lemma parse_text_trimmed:
  "parse_panel_speaker_and_text raw = (speaker, txt, done) \<Longrightarrow>
     leading_space txt = [] \<and> trailing_space txt = []"
  by (auto simp: parse_unfold leading_space_strip trailing_space_strip split: if_splits)

lemma parse_done:
  assumes "contains raw end_token" "parse_panel_speaker_and_text raw = (speaker, txt, done)"
  shows "done"
proof -
  have c: "contains (strip raw) end_token" using assms(1) by (rule contains_strip)
  show ?thesis
    using assms(2) c contains_behind_tag [OF c _ lt_not_in_tags(1)]
      contains_behind_tag [OF c _ lt_not_in_tags(2)]
    by (auto simp: parse_unfold startswith_def split: if_splits)
qed

lemma no_lt_no_token: "60 \<notin> set s \<Longrightarrow> \<not> contains s end_token"
  using contains_end_token_lt by blast

lemma parse_cleaned:
  "parse_panel_speaker_and_text raw = (speaker, txt, done) \<Longrightarrow>
     txt = strip (replace end_token [] (panel_text raw)) \<and>
     done = contains (panel_text raw) end_token"
  by (auto simp: parse_unfold panel_text_def Let_def split: if_splits)

lemma every_lt_panel_text: "every_lt_opens_token raw \<Longrightarrow> every_lt_opens_token (panel_text raw)"
  by (simp add: panel_text_def Let_def every_lt_strip every_lt_lstrip every_lt_drop)

lemma parse_no_token_left:
  assumes "every_lt_opens_token raw" "parse_panel_speaker_and_text raw = (speaker, txt, done)"
  shows "\<not> contains txt end_token"
proof -
  have "every_lt_opens_token (panel_text raw)" using assms(1) by (rule every_lt_panel_text)
  then have "60 \<notin> set (replace end_token [] (panel_text raw))" by (rule replace_removes_lt)
  then have "60 \<notin> set (strip (replace end_token [] (panel_text raw)))"
    using set_strip_subset by blast
  then have "\<not> contains (strip (replace end_token [] (panel_text raw))) end_token"
    by (rule no_lt_no_token)
  then show ?thesis using parse_cleaned [OF assms(2)] by simp
qed

lemma strip_sublist: "sublist (strip s) s"
proof -
  have "sublist (rstrip s) s"
    unfolding rstrip_def by (metis sublist_dropWhile sublist_rev rev_rev_ident)
  moreover have "sublist (lstrip (rstrip s)) (rstrip s)"
    unfolding lstrip_def by simp
  ultimately show ?thesis
    unfolding strip_def by (meson sublist_order.order_trans)
qed

lemma strip_keeps_token_free: "\<not> contains s t \<Longrightarrow> \<not> contains (strip s) t"
  unfolding contains_def using strip_sublist by (meson sublist_order.order_trans)

text \<open>The equations that evaluate the string functions on a literal.\<close>

lemmas str_eval = parse_unfold py_def strip_def lstrip_def rstrip_def startswith_def contains_def
    HR_MANAGER_TAG_def TECH_LEAD_TAG_def end_token_def isspace_def HR_MANAGER_def TECH_LEAD_def
    sublist_code leading_space_def trailing_space_def

text \<open>
  C1. For a raw string that contains the end token anywhere, the completion flag is
  true: the text behind the marker still contains the token. The cleaned text is that
  text after one pass of \<open>replace\<close> that removes the token, trimmed; it has no leading
  and no trailing white space. It contains no occurrence of the token whenever the
  result of the pass contains none, in particular whenever \<open><\<close> occurs in the raw
  string only as the first character of an occurrence of the token.
\<close>

theorem parse_end_token_anywhere:
  assumes "contains raw end_token"
    and "parse_panel_speaker_and_text raw = (speaker, txt, done)"
  shows "done \<and>
         contains (panel_text raw) end_token \<and>
         txt = strip (replace end_token [] (panel_text raw)) \<and>
         leading_space txt = [] \<and> trailing_space txt = [] \<and>
         (\<not> contains (replace end_token [] (panel_text raw)) end_token
            \<longrightarrow> \<not> contains txt end_token) \<and>
         (every_lt_opens_token raw \<longrightarrow> \<not> contains txt end_token)"
proof -
  have d: "done" using assms by (rule parse_done)
  have c: "txt = strip (replace end_token [] (panel_text raw))"
    and e: "done = contains (panel_text raw) end_token"
    using parse_cleaned [OF assms(2)] by simp_all
  have f: "\<not> contains txt end_token"
    if "\<not> contains (replace end_token [] (panel_text raw)) end_token"
    unfolding c using that by (rule strip_keeps_token_free)
  show ?thesis
    using d c e f parse_text_trimmed [OF assms(2)] parse_no_token_left [OF _ assms(2)]
    by blast
qed

theorem parse_end_token_anywhere_witness:
  "contains (py ''a < b <END_INTERVIEW>'') end_token \<and>
   parse_panel_speaker_and_text (py ''a < b <END_INTERVIEW>'') = (HR_MANAGER, py ''a < b'', True) \<and>
   panel_text (py ''a < b <END_INTERVIEW>'') = py ''a < b <END_INTERVIEW>'' \<and>
   replace end_token [] (py ''a < b <END_INTERVIEW>'') = py ''a < b '' \<and>
   \<not> contains (py ''a < b '') end_token \<and>
   \<not> contains (py ''a < b'') end_token"
proof -
  have a: "contains (py ''a < b <END_INTERVIEW>'') end_token"
    by (simp add: str_eval)
  have b: "parse_panel_speaker_and_text (py ''a < b <END_INTERVIEW>'')
             = (HR_MANAGER, py ''a < b'', True)"
    by (simp add: str_eval)
  have c: "panel_text (py ''a < b <END_INTERVIEW>'') = py ''a < b <END_INTERVIEW>''"
    by (simp add: panel_text_def str_eval)
  have d: "replace end_token [] (py ''a < b <END_INTERVIEW>'') = py ''a < b ''"
    by (simp add: str_eval)
  have e: "\<not> contains (py ''a < b '') end_token"
    by (simp add: str_eval)
  have "\<not> contains (replace end_token [] (panel_text (py ''a < b <END_INTERVIEW>''))) end_token"
    by (simp only: c d e not_False_eq_True)
  with parse_end_token_anywhere [OF a b] have "\<not> contains (py ''a < b'') end_token"
    by blast
  with a b c d e show ?thesis by blast
qed

text \<open>
  The claim as it is written fails where the removal joins two remains into a new
  token: "<END\_<END\_INTERVIEW>INTERVIEW>" contains the token, and its cleaned text
  is the token itself.
\<close>

theorem parse_end_token_nested_counterexample:
  "contains (py ''<END_<END_INTERVIEW>INTERVIEW>'') end_token \<and>
   parse_panel_speaker_and_text (py ''<END_<END_INTERVIEW>INTERVIEW>'')
     = (HR_MANAGER, py ''<END_INTERVIEW>'', True) \<and>
   contains (py ''<END_INTERVIEW>'') end_token"
  by (simp add: str_eval)

section \<open>The parser and the speaker markers\<close>

lemma contains_strip_rev: "\<not> contains s end_token \<Longrightarrow> \<not> contains (strip s) end_token"
proof -
  have "sublist (rstrip s) s"
    unfolding rstrip_def by (metis sublist_dropWhile sublist_rev rev_rev_ident)
  moreover have "sublist (lstrip (rstrip s)) (rstrip s)"
    unfolding lstrip_def by simp
  ultimately have "sublist (strip s) s"
    unfolding strip_def by (meson sublist_order.order_trans)
  then show "\<not> contains s end_token \<Longrightarrow> \<not> contains (strip s) end_token"
    unfolding contains_def by (meson sublist_order.order_trans)
qed

lemma replace_end_token_absent: "\<not> contains s end_token \<Longrightarrow> replace end_token [] s = s"
  unfolding contains_def by (rule replace_absent [OF end_token_nonempty])

text \<open>
  C4. A raw string which, after trimming, starts with neither marker is attributed to
  "HR Manager"; its cleaned text is the trimmed input with the occurrences of the end
  token removed and trimmed again, and the flag tells whether the token occurred. When
  the raw string does not contain the end token, the cleaned text is the trimmed input
  itself and the flag is false. The function is total: no input makes it raise.
\<close>

theorem parse_without_marker:
  assumes "\<not> startswith (strip raw) HR_MANAGER_TAG"
    and "\<not> startswith (strip raw) TECH_LEAD_TAG"
  shows "parse_panel_speaker_and_text raw =
           (HR_MANAGER, strip (replace end_token [] (strip raw)), contains (strip raw) end_token)
         \<and> (\<not> contains raw end_token \<longrightarrow>
              parse_panel_speaker_and_text raw = (HR_MANAGER, strip raw, False))"
proof -
  have a: "parse_panel_speaker_and_text raw =
           (HR_MANAGER, strip (replace end_token [] (strip raw)), contains (strip raw) end_token)"
    using assms by (simp add: parse_unfold)
  have "parse_panel_speaker_and_text raw = (HR_MANAGER, strip raw, False)"
    if "\<not> contains raw end_token"
  proof -
    have n: "\<not> contains (strip raw) end_token" using that by (rule contains_strip_rev)
    then show ?thesis by (simp add: a replace_end_token_absent strip_strip)
  qed
  with a show ?thesis by blast
qed

theorem parse_without_marker_witness:
  "\<not> startswith (strip (py ''  Tell me more. '')) HR_MANAGER_TAG \<and>
   \<not> startswith (strip (py ''  Tell me more. '')) TECH_LEAD_TAG \<and>
   \<not> contains (py ''  Tell me more. '') end_token \<and>
   parse_panel_speaker_and_text (py ''  Tell me more. '') = (HR_MANAGER, py ''Tell me more.'', False)"
proof -
  have a: "\<not> startswith (strip (py ''  Tell me more. '')) HR_MANAGER_TAG"
    by (simp add: str_eval)
  have b: "\<not> startswith (strip (py ''  Tell me more. '')) TECH_LEAD_TAG"
    by (simp add: str_eval)
  have c: "\<not> contains (py ''  Tell me more. '') end_token"
    by (simp add: str_eval)
  have d: "strip (py ''  Tell me more. '') = py ''Tell me more.''"
    by (simp add: str_eval)
  from parse_without_marker [OF a b] c
  have "parse_panel_speaker_and_text (py ''  Tell me more. '')
          = (HR_MANAGER, strip (py ''  Tell me more. ''), False)"
    by blast
  then have "parse_panel_speaker_and_text (py ''  Tell me more. '')
          = (HR_MANAGER, py ''Tell me more.'', False)"
    by (simp only: d)
  then show ?thesis using a b c by blast
qed

text \<open>
  The claim as it is written fails where the unmarked string contains the end token:
  "Bye <END\_INTERVIEW>" is cleaned to "Bye", which is not the trimmed input.
\<close>

theorem parse_without_marker_counterexample:
  "\<not> startswith (strip (py ''Bye <END_INTERVIEW>'')) HR_MANAGER_TAG \<and>
   \<not> startswith (strip (py ''Bye <END_INTERVIEW>'')) TECH_LEAD_TAG \<and>
   parse_panel_speaker_and_text (py ''Bye <END_INTERVIEW>'') = (HR_MANAGER, py ''Bye'', True) \<and>
   py ''Bye'' \<noteq> strip (py ''Bye <END_INTERVIEW>'')"
  by (simp add: str_eval)

lemma strip_behind_tag:
  assumes "strip raw = tag @ x"
  shows "strip (lstrip x) = lstrip x"
proof (cases "lstrip x = []")
  case True
  have "strip [] = []" by (simp add: strip_def rstrip_def lstrip_def)
  then show ?thesis by (simp add: True)
next
  case False
  then have x: "x \<noteq> []" by (auto simp: lstrip_def)
  have "strip raw \<noteq> []" using assms x by simp
  then have "\<not> isspace (last (strip raw))" using strip_last by blast
  then have "\<not> isspace (last x)" using assms x by simp
  then have "\<not> isspace (last (lstrip x))" using last_lstrip [OF False] by simp
  moreover have "\<not> isspace (hd (lstrip x))" using lstrip_eq_Nil_or False by blast
  ultimately show ?thesis by (intro strip_id) simp_all
qed

lemma contains_lstrip_rev: "\<not> contains x end_token \<Longrightarrow> \<not> contains (lstrip x) end_token"
proof -
  have "sublist (lstrip x) x" unfolding lstrip_def by simp
  then show "\<not> contains x end_token \<Longrightarrow> \<not> contains (lstrip x) end_token"
    unfolding contains_def by (meson sublist_order.order_trans)
qed

text \<open>
  C5. A raw string which, after trimming, is the marker [TECH\_LEAD] followed by X is
  attributed to "Tech Lead"; its cleaned text is X without its leading white space, with
  the occurrences of the end token removed and trimmed again. When X does not contain
  the end token, the cleaned text is X with its leading white space trimmed, and the
  flag is false.
\<close>

theorem parse_tech_lead:
  assumes "strip raw = TECH_LEAD_TAG @ x"
  shows "parse_panel_speaker_and_text raw =
           (TECH_LEAD, strip (replace end_token [] (lstrip x)), contains (lstrip x) end_token)
         \<and> (\<not> contains x end_token \<longrightarrow>
              parse_panel_speaker_and_text raw = (TECH_LEAD, lstrip x, False))"
proof -
  have a: "parse_panel_speaker_and_text raw =
           (TECH_LEAD, strip (replace end_token [] (lstrip x)), contains (lstrip x) end_token)"
    using tags_differ [of x] by (simp add: parse_unfold assms startswith_def)
  have "parse_panel_speaker_and_text raw = (TECH_LEAD, lstrip x, False)"
    if "\<not> contains x end_token"
  proof -
    have n: "\<not> contains (lstrip x) end_token" using that by (rule contains_lstrip_rev)
    then show ?thesis
      by (simp add: a replace_end_token_absent strip_behind_tag [OF assms])
  qed
  with a show ?thesis by blast
qed

theorem parse_tech_lead_witness:
  "strip (py '' [TECH_LEAD]  Tell me about a scaling challenge you solved. '')
     = TECH_LEAD_TAG @ py ''  Tell me about a scaling challenge you solved.'' \<and>
   \<not> contains (py ''  Tell me about a scaling challenge you solved.'') end_token \<and>
   parse_panel_speaker_and_text (py '' [TECH_LEAD]  Tell me about a scaling challenge you solved. '')
     = (TECH_LEAD, py ''Tell me about a scaling challenge you solved.'', False)"
proof -
  have a: "strip (py '' [TECH_LEAD]  Tell me about a scaling challenge you solved. '')
     = TECH_LEAD_TAG @ py ''  Tell me about a scaling challenge you solved.''"
    by (simp add: str_eval)
  have b: "\<not> contains (py ''  Tell me about a scaling challenge you solved.'') end_token"
    by (simp add: str_eval)
  have c: "lstrip (py ''  Tell me about a scaling challenge you solved.'')
             = py ''Tell me about a scaling challenge you solved.''"
    by (simp add: str_eval)
  from parse_tech_lead [OF a] b
  have "parse_panel_speaker_and_text (py '' [TECH_LEAD]  Tell me about a scaling challenge you solved. '')
          = (TECH_LEAD, lstrip (py ''  Tell me about a scaling challenge you solved.''), False)"
    by blast
  then have "parse_panel_speaker_and_text (py '' [TECH_LEAD]  Tell me about a scaling challenge you solved. '')
          = (TECH_LEAD, py ''Tell me about a scaling challenge you solved.'', False)"
    by (simp only: c)
  then show ?thesis using a b by blast
qed

text \<open>
  The claim as it is written fails where X contains the end token: for
  "[TECH\_LEAD] Bye <END\_INTERVIEW>" the cleaned text is "Bye", not X with its leading
  white space trimmed.
\<close>

theorem parse_tech_lead_counterexample:
  "strip (py ''[TECH_LEAD] Bye <END_INTERVIEW>'') = TECH_LEAD_TAG @ py '' Bye <END_INTERVIEW>'' \<and>
   parse_panel_speaker_and_text (py ''[TECH_LEAD] Bye <END_INTERVIEW>'') = (TECH_LEAD, py ''Bye'', True) \<and>
   py ''Bye'' \<noteq> lstrip (py '' Bye <END_INTERVIEW>'')"
  by (simp add: str_eval)

section \<open>The chat handler\<close>

text \<open>The replies whose texts are fixed, or base64, always render.\<close>

lemma b64_char_ascii: "b64_char n < 128"
  unfolding b64_char_def by auto

lemma encodable_Nil: "encodable []"
  by (simp add: encodable_def)

lemma encodable_ascii: "list_all (\<lambda>c. c < 128) str \<Longrightarrow> encodable str"
  by (induction str) (auto simp: encodable_def)

lemma b64encode_ascii: "list_all (\<lambda>c. c < 128) (b64encode bs)"
  by (induction bs rule: b64encode.induct) (simp_all add: Let_def b64_char_ascii)

lemma encodable_b64encode: "encodable (b64encode bs)"
  by (rule encodable_ascii [OF b64encode_ascii])

lemma encodable_speakers: "encodable HR_MANAGER" "encodable TECH_LEAD"
  by (simp_all add: encodable_def HR_MANAGER_def TECH_LEAD_def py_def)

lemma encodable_clarification: "encodable CLARIFICATION"
  by (simp add: encodable_def CLARIFICATION_def py_def)

lemma renders_chat_reply:
  "renders (ChatResponse ut reply (b64encode bs) speaker fin rep) \<longleftrightarrow>
     encodable ut \<and> encodable reply \<and> encodable speaker \<and>
     (case rep of None \<Rightarrow> True | Some report_json \<Rightarrow> json_renders report_json)"
  by (simp add: encodable_b64encode)

lemma renders_start_reply:
  "renders (StartResponse reply (b64encode bs) speaker) \<longleftrightarrow>
     encodable reply \<and> encodable speaker"
  by (simp add: encodable_b64encode)

lemma report_calls:
  "c \<in> set (snd (generate_final_report w s)) \<Longrightarrow> (\<exists>p. c = ReportLLM p) \<or> (\<exists>t r. c = Synthesize t r)"
  by (auto simp: generate_final_report_def Let_def split: sum.splits)

lemma report_response:
  "(\<exists>msg rep. fst (generate_final_report w s) =
       ChatResponse (last_candidate_text s) msg (b64encode (synthesize w msg HR_MANAGER))
         HR_MANAGER True (Some rep))
   \<or> fst (generate_final_report w s) = ErrorResponse (py ''Failed to generate report'') 500"
  by (auto simp: generate_final_report_def Let_def split: sum.splits)

text \<open>The equations that evaluate the sample world.\<close>

lemmas world_eval = sample_world_def sample_session_def session_state_def
  MAX_INTERVIEW_DURATION_def transcribe_file_def is_set_def

text \<open>
  C2. When the elapsed time is within the ceiling, the upload is saved and the
  transcript is empty or consists of white space only, \<open>/chat\<close> appends exactly one
  turn, the Interviewer turn of "HR Manager" with the fixed clarification message, and
  returns that message with \<open>is_end\<close> false. No Candidate turn is appended, the panel
  turn generator is not called (the only calls are the upload, the transcription and
  the speech synthesis), and every other session field keeps its value.
\<close>

theorem chat_silence:
  assumes "\<not> clock w - start_time s > MAX_INTERVIEW_DURATION"
    and "save_upload w = None"
    and "transcribe_file w = Inr stt"
    and "strip (transcript stt) = []"
  shows "chat w s =
           (ChatResponse [] CLARIFICATION (b64encode (synthesize w CLARIFICATION HR_MANAGER))
              HR_MANAGER False None,
            s\<lparr>history := history s @
                 [\<lparr>role = INTERVIEWER, panelist = HR_MANAGER, turn_text = CLARIFICATION\<rparr>]\<rparr>,
            [SaveUpload, Transcribe, Synthesize CLARIFICATION HR_MANAGER])"
  using assms
  by (simp add: chat_def Let_def encodable_b64encode encodable_speakers encodable_clarification
      encodable_Nil)

theorem chat_silence_witness:
  "\<not> clock (sample_world\<lparr>whisper := Inr (py ''  '')\<rparr>) - start_time sample_session
       > MAX_INTERVIEW_DURATION \<and>
   save_upload (sample_world\<lparr>whisper := Inr (py ''  '')\<rparr>) = None \<and>
   transcribe_file (sample_world\<lparr>whisper := Inr (py ''  '')\<rparr>)
     = Inr \<lparr>transcript = [], confidence = 1\<rparr> \<and>
   strip (transcript \<lparr>transcript = [], confidence = 1\<rparr>) = [] \<and>
   chat (sample_world\<lparr>whisper := Inr (py ''  '')\<rparr>) sample_session =
     (ChatResponse [] CLARIFICATION [] HR_MANAGER False None,
      sample_session\<lparr>history :=
        [\<lparr>role = INTERVIEWER, panelist = HR_MANAGER, turn_text = CLARIFICATION\<rparr>]\<rparr>,
      [SaveUpload, Transcribe, Synthesize CLARIFICATION HR_MANAGER])"
proof -
  let ?w = "sample_world\<lparr>whisper := Inr (py ''  '')\<rparr>"
  let ?stt = "\<lparr>transcript = [], confidence = 1\<rparr> :: stt_result"
  have a: "\<not> clock ?w - start_time sample_session > MAX_INTERVIEW_DURATION"
    by (simp add: world_eval)
  have b: "save_upload ?w = None"
    by (simp add: world_eval)
  have c: "transcribe_file ?w = Inr ?stt"
    by (simp add: world_eval str_eval)
  have d: "strip (transcript ?stt) = []"
    by (simp add: str_eval)
  have e: "synthesize ?w CLARIFICATION HR_MANAGER = []"
    by (simp add: synthesize_def world_eval)
  have f: "history sample_session = []"
    by (simp add: world_eval)
  from chat_silence [OF a b c d]
  have "chat ?w sample_session =
     (ChatResponse [] CLARIFICATION [] HR_MANAGER False None,
      sample_session\<lparr>history :=
        [\<lparr>role = INTERVIEWER, panelist = HR_MANAGER, turn_text = CLARIFICATION\<rparr>]\<rparr>,
      [SaveUpload, Transcribe, Synthesize CLARIFICATION HR_MANAGER])"
    by (simp add: e f)
  then show ?thesis using a b c d by blast
qed

text \<open>
  C3. When the elapsed time exceeds the ceiling of 300 seconds, \<open>/chat\<close> is the report
  generation on the session as it stands, whatever the audio would transcribe to: the
  upload is not saved, nothing is transcribed, the panel is not called, and the session,
  its history included, is unchanged. The test is the first thing the handler does.
\<close>

theorem chat_timeout:
  assumes "clock w - start_time s > MAX_INTERVIEW_DURATION"
  shows "MAX_INTERVIEW_DURATION = 300 \<and>
         chat w s = (fst (generate_final_report w s), s, snd (generate_final_report w s)) \<and>
         fst (snd (chat w s)) = s \<and>
         SaveUpload \<notin> set (snd (snd (chat w s))) \<and>
         Transcribe \<notin> set (snd (snd (chat w s))) \<and>
         (\<forall>m. PanelLLM m \<notin> set (snd (snd (chat w s))))"
proof -
  have a: "chat w s = (fst (generate_final_report w s), s, snd (generate_final_report w s))"
    using assms by (simp add: chat_def Let_def split: prod.splits)
  then show ?thesis using report_calls [of _ w s] by (auto simp: MAX_INTERVIEW_DURATION_def)
qed

theorem chat_timeout_witness:
  "clock sample_world - start_time session_state > MAX_INTERVIEW_DURATION \<and>
   chat sample_world session_state =
     (fst (generate_final_report sample_world session_state), session_state,
      snd (generate_final_report sample_world session_state)) \<and>
   Transcribe \<notin> set (snd (snd (chat sample_world session_state)))"
proof -
  have a: "clock sample_world - start_time session_state > MAX_INTERVIEW_DURATION"
    by (simp add: world_eval)
  show ?thesis using chat_timeout [OF a] a by blast
qed

text \<open>
  C6. When the transcript is not empty and the panel call raises, \<open>/chat\<close> answers
  with an error response of status 500 that carries the text of the exception; the
  Candidate turn appended before the call stays in the history, and the panel was
  called once.
\<close>

theorem chat_panel_failure:
  assumes "\<not> clock w - start_time s > MAX_INTERVIEW_DURATION"
    and "save_upload w = None"
    and "transcribe_file w = Inr stt"
    and "strip (transcript stt) \<noteq> []"
    and "s1 = s\<lparr>history := history s @
                 [\<lparr>role = CANDIDATE, panelist = [], turn_text = strip (transcript stt)\<rparr>]\<rparr>"
    and "generate_next_panel_turn w s1 = Inl e"
  shows "chat w s =
           (ErrorResponse (message e) 500, s1,
            [SaveUpload, Transcribe, PanelLLM (build_llm_messages_from_history w s1)])"
  using assms by (simp add: chat_def Let_def)

theorem chat_panel_failure_witness:
  "\<not> clock (sample_world\<lparr>chat_completion := (\<lambda>m. Inl (Exception (py ''RateLimitError'')))\<rparr>)
       - start_time sample_session > MAX_INTERVIEW_DURATION \<and>
   save_upload (sample_world\<lparr>chat_completion := (\<lambda>m. Inl (Exception (py ''RateLimitError'')))\<rparr>)
     = None \<and>
   transcribe_file (sample_world\<lparr>chat_completion := (\<lambda>m. Inl (Exception (py ''RateLimitError'')))\<rparr>)
     = Inr \<lparr>transcript = py ''I have five years of experience in backend systems'',
            confidence = 1\<rparr> \<and>
   chat (sample_world\<lparr>chat_completion := (\<lambda>m. Inl (Exception (py ''RateLimitError'')))\<rparr>)
        sample_session =
     (ErrorResponse (py ''RateLimitError'') 500,
      sample_session\<lparr>history :=
        [\<lparr>role = CANDIDATE, panelist = [],
          turn_text = py ''I have five years of experience in backend systems''\<rparr>]\<rparr>,
      [SaveUpload, Transcribe,
       PanelLLM [(System, py ''Backend engineer''),
                 (User, py ''I have five years of experience in backend systems'')]])"
proof -
  let ?w = "sample_world\<lparr>chat_completion := (\<lambda>m. Inl (Exception (py ''RateLimitError'')))\<rparr>"
  let ?t = "py ''I have five years of experience in backend systems''"
  let ?stt = "\<lparr>transcript = ?t, confidence = 1\<rparr> :: stt_result"
  let ?s1 = "sample_session\<lparr>history := [\<lparr>role = CANDIDATE, panelist = [], turn_text = ?t\<rparr>]\<rparr>"
  have st: "strip ?t = ?t"
    by (simp add: str_eval)
  have a: "\<not> clock ?w - start_time sample_session > MAX_INTERVIEW_DURATION"
    by (simp add: world_eval)
  have b: "save_upload ?w = None"
    by (simp add: world_eval)
  have c: "transcribe_file ?w = Inr ?stt"
    by (simp add: world_eval str_eval)
  have d: "strip (transcript ?stt) \<noteq> []"
    by (simp add: st) (simp add: py_def)
  have e: "?s1 = sample_session\<lparr>history := history sample_session @
             [\<lparr>role = CANDIDATE, panelist = [], turn_text = strip (transcript ?stt)\<rparr>]\<rparr>"
    by (simp add: st) (simp add: world_eval)
  have f: "generate_next_panel_turn ?w ?s1 = Inl (Exception (py ''RateLimitError''))"
    by (simp add: generate_next_panel_turn_def sample_world_def)
  have g: "build_llm_messages_from_history ?w ?s1 = [(System, py ''Backend engineer''), (User, ?t)]"
    by (simp add: build_llm_messages_from_history_def build_panel_system_prompt_def
        sample_world_def CANDIDATE_def INTERVIEWER_def py_def)
  from chat_panel_failure [OF a b c d e f]
  have "chat ?w sample_session =
     (ErrorResponse (py ''RateLimitError'') 500, ?s1,
      [SaveUpload, Transcribe, PanelLLM [(System, py ''Backend engineer''), (User, ?t)]])"
    by (simp only: g exn.sel)
  then show ?thesis using a b c by blast
qed

section \<open>The report\<close>

lemma sample_report_closing:
  "closing_message sample_world sample_report
     = Inr (py ''Interview complete. Overall Score: 0.0/10. Result: No Hire.'')"
  by (simp add: closing_message_def sample_report_def sample_world_def py_def)

lemma sample_report_renders: "json_renders sample_report"
  by (simp add: sample_report_def encodable_def py_def)

lemma sample_synthesize: "synthesize sample_world t r = []"
  by (simp add: synthesize_def sample_world_def is_set_def)

lemma sample_final_report:
  "fst (generate_final_report sample_world session_state) =
     ChatResponse [] (py ''Interview complete. Overall Score: 0.0/10. Result: No Hire.'') []
       HR_MANAGER True (Some sample_report)"
proof -
  have "report_completion sample_world p = Inr sample_report" for p
    by (simp add: sample_world_def)
  then show ?thesis
    by (simp add: generate_final_report_def Let_def sample_report_closing sample_synthesize
        last_candidate_text_def session_state_def sample_report_renders encodable_Nil
        encodable_speakers)
       (simp add: encodable_def py_def)
qed

text \<open>
  C10. Before any \<open>/start\<close> the start time stamp is 0, so with a clock beyond 300 (any
  Unix time is) \<open>/chat\<close> is the report generation over the empty history: the session
  stays as it was, the last candidate utterance is the empty string, and the response
  is either the final reply with the empty \<open>user_transcript\<close> or the report error.
\<close>

theorem chat_before_start:
  assumes "clock w > 300"
  shows "chat w session_state =
           (fst (generate_final_report w session_state), session_state,
            snd (generate_final_report w session_state)) \<and>
         history session_state = [] \<and>
         last_candidate_text session_state = [] \<and>
         ((\<exists>msg audio rep. fst (chat w session_state) =
              ChatResponse [] msg audio HR_MANAGER True (Some rep))
          \<or> fst (chat w session_state) = ErrorResponse (py ''Failed to generate report'') 500)"
proof -
  have t: "clock w - start_time session_state > MAX_INTERVIEW_DURATION"
    using assms by (simp add: session_state_def MAX_INTERVIEW_DURATION_def)
  have a: "chat w session_state =
           (fst (generate_final_report w session_state), session_state,
            snd (generate_final_report w session_state))"
    using t by (simp add: chat_def Let_def split: prod.splits)
  have b: "last_candidate_text session_state = []"
    by (simp add: last_candidate_text_def session_state_def)
  have c: "history session_state = []"
    by (simp add: session_state_def)
  show ?thesis using a b c report_response [of w session_state] by auto
qed

theorem chat_before_start_witness:
  "clock sample_world > 300 \<and>
   chat sample_world session_state =
     (fst (generate_final_report sample_world session_state), session_state,
      snd (generate_final_report sample_world session_state)) \<and>
   fst (chat sample_world session_state) =
     ChatResponse [] (py ''Interview complete. Overall Score: 0.0/10. Result: No Hire.'') []
       HR_MANAGER True (Some sample_report)"
proof -
  have a: "clock sample_world > 300"
    by (simp add: sample_world_def)
  from chat_before_start [OF a]
  have b: "chat sample_world session_state =
     (fst (generate_final_report sample_world session_state), session_state,
      snd (generate_final_report sample_world session_state))"
    by blast
  then have "fst (chat sample_world session_state) =
     ChatResponse [] (py ''Interview complete. Overall Score: 0.0/10. Result: No Hire.'') []
       HR_MANAGER True (Some sample_report)"
    by (simp add: sample_final_report)
  with a b show ?thesis by blast
qed

lemma report_returned:
  assumes "report_completion w (report_prompt w s) = Inr report_json"
    and "closing_message w report_json = Inr closing_msg"
    and "json_renders report_json"
    and "encodable closing_msg"
    and "encodable (last_candidate_text s)"
  shows "generate_final_report w s =
           (ChatResponse (last_candidate_text s) closing_msg
              (b64encode (synthesize w closing_msg HR_MANAGER)) HR_MANAGER True
              (Some report_json),
            [ReportLLM (report_prompt w s), Synthesize closing_msg HR_MANAGER])"
  using assms
  by (simp add: generate_final_report_def Let_def encodable_b64encode encodable_speakers)

lemma report_origin:
  assumes "generate_final_report w s = (ChatResponse ut msg audio speaker fin rep, calls)"
  shows "\<exists>report_json.
           rep = Some report_json \<and>
           report_completion w (report_prompt w s) = Inr report_json \<and>
           closing_message w report_json = Inr msg \<and>
           fin \<and> speaker = HR_MANAGER \<and> ut = last_candidate_text s"
  using assms
  by (auto simp: generate_final_report_def Let_def split: sum.splits if_splits)

lemma prompt_holds_weights: "contains (report_prompt w s) (weights_str w)"
proof -
  have "report_prompt w s =
          (REPORT_PROMPT_HEAD @ hr_guide w @ REPORT_PROMPT_TRANSCRIPT
             @ join [10] (map transcript_line (history s)) @ REPORT_PROMPT_CRITERIA)
          @ weights_str w @ REPORT_PROMPT_TASK"
    by (simp add: report_prompt_def Let_def)
  then show ?thesis unfolding contains_def by (metis sublist_appendI)
qed

lemma task_asks_for_score:
  "contains REPORT_PROMPT_TASK (py ''Compute a weighted overall score'')"
  by (simp add: REPORT_PROMPT_TASK_def contains_def py_def sublist_code)

lemma prompt_asks_for_score:
  "contains (report_prompt w s) (py ''Compute a weighted overall score'')"
proof -
  have "report_prompt w s =
          (REPORT_PROMPT_HEAD @ hr_guide w @ REPORT_PROMPT_TRANSCRIPT
             @ join [10] (map transcript_line (history s)) @ REPORT_PROMPT_CRITERIA
             @ weights_str w) @ REPORT_PROMPT_TASK"
    by (simp add: report_prompt_def Let_def)
  then have "sublist REPORT_PROMPT_TASK (report_prompt w s)"
    by (metis sublist_append_leftI)
  then show ?thesis
    using task_asks_for_score unfolding contains_def by (meson sublist_order.order_trans)
qed

lemma weights_str_text:
  "weights_str w =
     py ''Technical Knowledge ('' @ float_str w 40 @ py ''%), Communication Skills (''
       @ float_str w 30 @ py ''%), Problem Solving ('' @ float_str w 20
       @ py ''%), Cultural Fit ('' @ float_str w 10 @ py ''%)''"
  by (simp add: weights_str_def HR_COMPETENCIES_def py_def)

text \<open>
  C7. A report that \<open>generate_final_report\<close> returns is the decoded reply of the
  language model, handed on as it came; and every reply that decodes, yields a closing
  message and renders is returned so, whatever its scores and its overall score:
  nothing in the program computes the weighted sum or compares the two. The weights
  0.40, 0.30, 0.20 and 0.10 are written into the prompt, as percentages, and the task
  of the prompt asks the model for the weighted overall score.
\<close>

theorem report_passed_through:
  "(generate_final_report w s = (ChatResponse ut msg audio speaker fin rep, calls) \<longrightarrow>
      (\<exists>reply_json.
         rep = Some reply_json \<and>
         report_completion w (report_prompt w s) = Inr reply_json \<and>
         closing_message w reply_json = Inr msg \<and>
         fin \<and> speaker = HR_MANAGER \<and> ut = last_candidate_text s)) \<and>
   (report_completion w (report_prompt w s) = Inr report_json \<and>
    closing_message w report_json = Inr closing_msg \<and>
    json_renders report_json \<and> encodable closing_msg \<and> encodable (last_candidate_text s) \<longrightarrow>
      generate_final_report w s =
        (ChatResponse (last_candidate_text s) closing_msg
           (b64encode (synthesize w closing_msg HR_MANAGER)) HR_MANAGER True
           (Some report_json),
         [ReportLLM (report_prompt w s), Synthesize closing_msg HR_MANAGER])) \<and>
   contains (report_prompt w s) (weights_str w) \<and>
   weights_str w =
     py ''Technical Knowledge ('' @ float_str w 40 @ py ''%), Communication Skills (''
       @ float_str w 30 @ py ''%), Problem Solving ('' @ float_str w 20
       @ py ''%), Cultural Fit ('' @ float_str w 10 @ py ''%)'' \<and>
   contains (report_prompt w s) (py ''Compute a weighted overall score'')"
  using report_origin [of w s ut msg audio speaker fin rep calls]
    report_returned [of w s report_json closing_msg]
    prompt_holds_weights [of w s] weights_str_text [of w] prompt_asks_for_score [of w s]
  by blast

theorem report_passed_through_witness:
  "report_completion sample_world (report_prompt sample_world session_state) = Inr sample_report \<and>
   closing_message sample_world sample_report
     = Inr (py ''Interview complete. Overall Score: 0.0/10. Result: No Hire.'') \<and>
   json_renders sample_report \<and>
   encodable (py ''Interview complete. Overall Score: 0.0/10. Result: No Hire.'') \<and>
   encodable (last_candidate_text session_state) \<and>
   overall_score sample_report \<noteq> weighted_overall_score sample_report \<and>
   generate_final_report sample_world session_state =
     (ChatResponse (last_candidate_text session_state)
        (py ''Interview complete. Overall Score: 0.0/10. Result: No Hire.'')
        (b64encode (synthesize sample_world
           (py ''Interview complete. Overall Score: 0.0/10. Result: No Hire.'') HR_MANAGER))
        HR_MANAGER True (Some sample_report),
      [ReportLLM (report_prompt sample_world session_state),
       Synthesize (py ''Interview complete. Overall Score: 0.0/10. Result: No Hire.'')
         HR_MANAGER])"
proof -
  let ?msg = "py ''Interview complete. Overall Score: 0.0/10. Result: No Hire.''"
  have a: "report_completion sample_world (report_prompt sample_world session_state)
             = Inr sample_report"
    by (simp add: sample_world_def)
  have b: "closing_message sample_world sample_report = Inr ?msg"
    by (rule sample_report_closing)
  have c: "json_renders sample_report"
    by (rule sample_report_renders)
  have d: "encodable ?msg"
    by (simp add: encodable_def py_def)
  have e: "encodable (last_candidate_text session_state)"
    by (simp add: last_candidate_text_def session_state_def encodable_Nil)
  have f: "overall_score sample_report \<noteq> weighted_overall_score sample_report"
    by (simp add: overall_score_def weighted_overall_score_def field_of_def sample_report_def
        HR_COMPETENCIES_def py_def)
  show ?thesis
    using report_passed_through
      [of sample_world session_state _ _ _ _ _ _ _ sample_report ?msg] a b c d e f
    by blast
qed

text \<open>
  The claim as it is written fails: when the model answers with four scores of 10 and
  an overall score of 0, that report is returned, although the weighted sum of its
  scores is 10.
\<close>

theorem report_inconsistent_counterexample:
  "report (fst (generate_final_report sample_world session_state)) = Some sample_report \<and>
   overall_score sample_report = Some 0 \<and>
   weighted_overall_score sample_report = Some 10"
proof -
  have a: "report (fst (generate_final_report sample_world session_state)) = Some sample_report"
    by (simp add: sample_final_report)
  have b: "overall_score sample_report = Some 0"
    by (simp add: overall_score_def field_of_def sample_report_def py_def)
  have c: "weighted_overall_score sample_report = Some 10"
    by (simp add: weighted_overall_score_def field_of_def sample_report_def HR_COMPETENCIES_def py_def)
  show ?thesis using a b c by blast
qed

section \<open>The shape of the turns\<close>

lemma parse_speaker:
  "parse_panel_speaker_and_text raw = (speaker, txt, done) \<Longrightarrow>
     speaker = HR_MANAGER \<or> speaker = TECH_LEAD"
  by (auto simp: parse_unfold split: if_splits)

lemma turn_ok_candidate: "turn_ok \<lparr>role = CANDIDATE, panelist = [], turn_text = t\<rparr>"
  by (simp add: turn_ok_def)

lemma turn_ok_interviewer:
  "speaker = HR_MANAGER \<or> speaker = TECH_LEAD \<Longrightarrow>
     turn_ok \<lparr>role = INTERVIEWER, panelist = speaker, turn_text = t\<rparr>"
  by (auto simp: turn_ok_def)

lemma chat_appends:
  assumes "chat w s = (r, s', calls)"
  shows "\<exists>ts. history s' = history s @ ts \<and> list_all turn_ok ts"
proof (cases "clock w - start_time s > MAX_INTERVIEW_DURATION")
  case True
  then have "s' = s" using assms by (auto simp: chat_def Let_def split: prod.splits)
  then show ?thesis by simp
next
  case late: False
  show ?thesis
  proof (cases "save_upload w")
    case (Some e)
    then have "s' = s" using assms late by (auto simp: chat_def Let_def)
    then show ?thesis by simp
  next
    case None
    show ?thesis
    proof (cases "transcribe_file w")
      case (Inl e)
      then have "s' = s" using assms late None by (auto simp: chat_def Let_def)
      then show ?thesis by simp
    next
      case (Inr stt)
      show ?thesis
      proof (cases "strip (transcript stt) = []")
        case True
        then have "history s' = history s @
            [\<lparr>role = INTERVIEWER, panelist = HR_MANAGER, turn_text = CLARIFICATION\<rparr>]"
          using assms late None Inr by (auto simp: chat_def Let_def)
        then show ?thesis by (simp add: turn_ok_interviewer)
      next
        case False
        let ?c = "\<lparr>role = CANDIDATE, panelist = [], turn_text = strip (transcript stt)\<rparr>"
        let ?s1 = "s\<lparr>history := history s @ [?c]\<rparr>"
        show ?thesis
        proof (cases "generate_next_panel_turn w ?s1")
          case (Inl e)
          then have "s' = ?s1" using assms late None Inr False by (auto simp: chat_def Let_def)
          then show ?thesis by (simp add: turn_ok_candidate)
        next
          case panel: (Inr content)
          show ?thesis
          proof (cases content)
            case None': None
            then have "s' = ?s1"
              using assms late None Inr False panel by (auto simp: chat_def Let_def)
            then show ?thesis by (simp add: turn_ok_candidate)
          next
            case (Some raw)
            obtain speaker cleaned fin where p:
              "parse_panel_speaker_and_text (strip raw) = (speaker, cleaned, fin)"
              by (cases "parse_panel_speaker_and_text (strip raw)") auto
            have sp: "speaker = HR_MANAGER \<or> speaker = TECH_LEAD"
              using p by (rule parse_speaker)
            have "history s' = history s @ [?c] \<or>
                  history s' = history s @
                    [?c, \<lparr>role = INTERVIEWER, panelist = speaker, turn_text = cleaned\<rparr>]"
              using assms late None Inr False panel Some p
              by (auto simp: chat_def Let_def split: prod.splits if_splits)
            then show ?thesis
              using turn_ok_candidate turn_ok_interviewer [OF sp] by auto
          qed
        qed
      qed
    qed
  qed
qed

lemma start_history:
  assumes "start_interview_endpoint w s = (r, s', calls)"
  shows "list_all turn_ok (history s')"
proof -
  let ?s1 = "s\<lparr>start_time := clock w, history := [], current_q_index := 0,
                follow_up_count := 0, last_question := []\<rparr>"
  show ?thesis
  proof (cases "generate_next_panel_turn w ?s1")
    case (Inl e)
    then have "history s' = []"
      using assms by (auto simp: start_interview_endpoint_def Let_def)
    then show ?thesis by simp
  next
    case panel: (Inr content)
    show ?thesis
    proof (cases content)
      case None
      then have "history s' = []"
        using assms panel by (auto simp: start_interview_endpoint_def Let_def)
      then show ?thesis by simp
    next
      case (Some raw)
      obtain speaker cleaned fin where p:
        "parse_panel_speaker_and_text raw = (speaker, cleaned, fin)"
        by (cases "parse_panel_speaker_and_text raw") auto
      have sp: "speaker = HR_MANAGER \<or> speaker = TECH_LEAD"
        using p by (rule parse_speaker)
      have "history s' = [\<lparr>role = INTERVIEWER, panelist = speaker, turn_text = cleaned\<rparr>]"
        using assms panel Some p by (auto simp: start_interview_endpoint_def Let_def)
      then show ?thesis using turn_ok_interviewer [OF sp] by simp
    qed
  qed
qed

text \<open>
  C8. In every session that the process can reach from its initial state by requests
  to \<open>/start\<close> and \<open>/chat\<close>, every turn of the history is well formed: its role is
  Candidate with the empty speaker identity, or Interviewer with the identity
  "HR Manager" or "Tech Lead".
\<close>

theorem history_turns_well_formed:
  "reachable s \<Longrightarrow> list_all turn_ok (history s)"
proof (induction rule: reachable.induct)
  case initial
  show ?case by (simp add: session_state_def)
next
  case (start s w r s' calls)
  then show ?case using start_history by blast
next
  case (chat s w r s' calls)
  from chat.hyps(2) obtain ts where "history s' = history s @ ts" "list_all turn_ok ts"
    using chat_appends by blast
  then show ?case using chat.IH by simp
qed

lemma sample_start:
  "start_interview_endpoint sample_world session_state =
     (Inr (StartResponse (py ''Tell me about a scaling challenge you solved.'') [] TECH_LEAD),
      \<lparr>start_time = 1000, current_q_index = 0, follow_up_count = 0,
        last_question = py ''Tell me about a scaling challenge you solved.'',
        history = [\<lparr>role = INTERVIEWER, panelist = TECH_LEAD,
                    turn_text = py ''Tell me about a scaling challenge you solved.''\<rparr>]\<rparr>,
      [PanelLLM [(System, py ''Backend engineer'')],
       Synthesize (py ''Tell me about a scaling challenge you solved.'') TECH_LEAD])"
proof -
  have p: "parse_panel_speaker_and_text
             (py ''[TECH_LEAD] Tell me about a scaling challenge you solved.'')
           = (TECH_LEAD, py ''Tell me about a scaling challenge you solved.'', False)"
    by (simp add: str_eval)
  have g: "generate_next_panel_turn sample_world s
           = Inr (Some (py ''[TECH_LEAD] Tell me about a scaling challenge you solved.''))" for s
    by (simp add: generate_next_panel_turn_def sample_world_def)
  have m: "history s = [] \<Longrightarrow> build_llm_messages_from_history sample_world s
           = [(System, py ''Backend engineer'')]" for s
    by (simp add: build_llm_messages_from_history_def build_panel_system_prompt_def
        sample_world_def)
  have c: "clock sample_world = 1000"
    by (simp add: sample_world_def)
  have e: "encodable (py ''Tell me about a scaling challenge you solved.'')"
    by (simp add: encodable_def py_def)
  show ?thesis
    unfolding start_interview_endpoint_def
    by (simp add: Let_def g p m c e sample_synthesize session_state_def encodable_Nil
        encodable_speakers)
qed

theorem history_turns_well_formed_witness:
  "reachable
     \<lparr>start_time = 1000, current_q_index = 0, follow_up_count = 0,
       last_question = py ''Tell me about a scaling challenge you solved.'',
       history = [\<lparr>role = INTERVIEWER, panelist = TECH_LEAD,
                   turn_text = py ''Tell me about a scaling challenge you solved.''\<rparr>]\<rparr> \<and>
   list_all turn_ok
     (history
        \<lparr>start_time = 1000, current_q_index = 0, follow_up_count = 0,
          last_question = py ''Tell me about a scaling challenge you solved.'',
          history = [\<lparr>role = INTERVIEWER, panelist = TECH_LEAD,
                      turn_text = py ''Tell me about a scaling challenge you solved.''\<rparr>]\<rparr>)"
proof -
  let ?s = "\<lparr>start_time = 1000, current_q_index = 0, follow_up_count = 0,
       last_question = py ''Tell me about a scaling challenge you solved.'',
       history = [\<lparr>role = INTERVIEWER, panelist = TECH_LEAD,
                   turn_text = py ''Tell me about a scaling challenge you solved.''\<rparr>]\<rparr>"
  have r: "reachable ?s"
    by (rule reachable.start [OF reachable.initial sample_start])
  show ?thesis using history_turns_well_formed [OF r] r by blast
qed

section \<open>Failing speech synthesis\<close>

lemma synthesize_failure: "tts_failure w t speaker \<Longrightarrow> synthesize w t speaker = []"
  by (auto simp: tts_failure_def synthesize_def Let_def split: sum.splits prod.splits if_splits)

lemma encodable_parsed_speaker:
  "parse_panel_speaker_and_text raw = (speaker, cleaned, stop) \<Longrightarrow> encodable speaker"
  using parse_speaker encodable_speakers by blast

lemma chat_silence_reply:
  assumes "\<not> clock w - start_time s > MAX_INTERVIEW_DURATION"
    and "save_upload w = None"
    and "transcribe_file w = Inr stt"
    and "strip (transcript stt) = []"
  shows "fst (chat w s) =
           ChatResponse [] CLARIFICATION (b64encode (synthesize w CLARIFICATION HR_MANAGER))
             HR_MANAGER False None"
  using assms
  by (simp add: chat_def Let_def encodable_b64encode encodable_speakers encodable_clarification
      encodable_Nil)

lemma chat_panel_reply:
  assumes "\<not> clock w - start_time s > MAX_INTERVIEW_DURATION"
    and "save_upload w = None"
    and "transcribe_file w = Inr stt"
    and "strip (transcript stt) \<noteq> []"
    and "generate_next_panel_turn w
           (s\<lparr>history := history s @
               [\<lparr>role = CANDIDATE, panelist = [], turn_text = strip (transcript stt)\<rparr>]\<rparr>)
         = Inr (Some content)"
    and "parse_panel_speaker_and_text (strip content) = (speaker, cleaned, False)"
    and "encodable (strip (transcript stt))"
    and "encodable cleaned"
  shows "fst (chat w s) =
           ChatResponse (strip (transcript stt)) cleaned
             (b64encode (synthesize w cleaned speaker)) speaker False None"
  using assms encodable_parsed_speaker [OF assms(6)]
  by (simp add: chat_def Let_def encodable_b64encode)

lemma start_reply:
  assumes "generate_next_panel_turn w
             (s\<lparr>start_time := clock w, history := [], current_q_index := 0,
                follow_up_count := 0, last_question := []\<rparr>)
           = Inr (Some raw)"
    and "parse_panel_speaker_and_text raw = (speaker, cleaned, stop)"
    and "encodable cleaned"
  shows "fst (start_interview_endpoint w s) =
           Inr (StartResponse cleaned (b64encode (synthesize w cleaned speaker)) speaker)"
  using assms encodable_parsed_speaker [OF assms(2)]
  by (simp add: start_interview_endpoint_def Let_def encodable_b64encode)

text \<open>
  C9. \<open>synthesize\<close> is total, and whenever synthesis fails for a text and a speaker
  (missing key, request raising, status other than 200, undecodable body, no audio
  URL, download raising or with a status other than 200) it returns the empty byte
  string. Its callers encode what it returns and go on to reply: the silence branch
  and the panel branch of \<open>/chat\<close>, \<open>/start\<close> and the report generation each return
  their reply for that text and speaker with the empty base64 string, provided the
  texts of the reply can be rendered.
\<close>

theorem synthesize_fails_softly:
  assumes "tts_failure w t speaker"
  shows "synthesize w t speaker = [] \<and>
         b64encode (synthesize w t speaker) = [] \<and>
         (\<not> clock w - start_time s > MAX_INTERVIEW_DURATION \<and> save_upload w = None \<and>
          transcribe_file w = Inr stt \<and> strip (transcript stt) = [] \<and>
          t = CLARIFICATION \<and> speaker = HR_MANAGER \<longrightarrow>
            fst (chat w s) = ChatResponse [] CLARIFICATION [] HR_MANAGER False None) \<and>
         (\<not> clock w - start_time s > MAX_INTERVIEW_DURATION \<and> save_upload w = None \<and>
          transcribe_file w = Inr stt \<and> strip (transcript stt) \<noteq> [] \<and>
          generate_next_panel_turn w
            (s\<lparr>history := history s @
                [\<lparr>role = CANDIDATE, panelist = [], turn_text = strip (transcript stt)\<rparr>]\<rparr>)
            = Inr (Some content) \<and>
          parse_panel_speaker_and_text (strip content) = (speaker, t, False) \<and>
          encodable (strip (transcript stt)) \<and> encodable t \<longrightarrow>
            fst (chat w s) = ChatResponse (strip (transcript stt)) t [] speaker False None) \<and>
         (generate_next_panel_turn w
            (s\<lparr>start_time := clock w, history := [], current_q_index := 0,
               follow_up_count := 0, last_question := []\<rparr>)
            = Inr (Some raw) \<and>
          parse_panel_speaker_and_text raw = (speaker, t, stop) \<and> encodable t \<longrightarrow>
            fst (start_interview_endpoint w s) = Inr (StartResponse t [] speaker)) \<and>
         (speaker = HR_MANAGER \<and>
          report_completion w (report_prompt w s) = Inr report_json \<and>
          closing_message w report_json = Inr t \<and>
          json_renders report_json \<and> encodable t \<and> encodable (last_candidate_text s) \<longrightarrow>
            fst (generate_final_report w s) =
              ChatResponse (last_candidate_text s) t [] HR_MANAGER True (Some report_json))"
proof -
  have a: "synthesize w t speaker = []" using assms by (rule synthesize_failure)
  then have b: "b64encode (synthesize w t speaker) = []" by simp
  have c: "fst (chat w s) = ChatResponse [] CLARIFICATION [] HR_MANAGER False None"
    if "\<not> clock w - start_time s > MAX_INTERVIEW_DURATION" "save_upload w = None"
      "transcribe_file w = Inr stt" "strip (transcript stt) = []"
      "t = CLARIFICATION" "speaker = HR_MANAGER"
    using chat_silence_reply [OF that(1-4)] b that(5,6) by simp
  have d: "fst (chat w s) = ChatResponse (strip (transcript stt)) t [] speaker False None"
    if "\<not> clock w - start_time s > MAX_INTERVIEW_DURATION" "save_upload w = None"
      "transcribe_file w = Inr stt" "strip (transcript stt) \<noteq> []"
      "generate_next_panel_turn w
         (s\<lparr>history := history s @
             [\<lparr>role = CANDIDATE, panelist = [], turn_text = strip (transcript stt)\<rparr>]\<rparr>)
       = Inr (Some content)"
      "parse_panel_speaker_and_text (strip content) = (speaker, t, False)"
      "encodable (strip (transcript stt))" "encodable t"
    using chat_panel_reply [OF that] b by simp
  have e: "fst (start_interview_endpoint w s) = Inr (StartResponse t [] speaker)"
    if "generate_next_panel_turn w
          (s\<lparr>start_time := clock w, history := [], current_q_index := 0,
             follow_up_count := 0, last_question := []\<rparr>)
        = Inr (Some raw)"
      "parse_panel_speaker_and_text raw = (speaker, t, stop)" "encodable t"
    using start_reply [OF that] b by simp
  have f: "fst (generate_final_report w s) =
             ChatResponse (last_candidate_text s) t [] HR_MANAGER True (Some report_json)"
    if "speaker = HR_MANAGER" "report_completion w (report_prompt w s) = Inr report_json"
      "closing_message w report_json = Inr t" "json_renders report_json" "encodable t"
      "encodable (last_candidate_text s)"
    using report_returned [OF that(2-6)] b that(1) by simp
  show ?thesis using a b c d e f by blast
qed

theorem synthesize_fails_softly_witness:
  "tts_failure sample_world (py ''Tell me about a scaling challenge you solved.'') TECH_LEAD \<and>
   synthesize sample_world (py ''Tell me about a scaling challenge you solved.'') TECH_LEAD = [] \<and>
   fst (chat sample_world sample_session) =
     ChatResponse (py ''I have five years of experience in backend systems'')
       (py ''Tell me about a scaling challenge you solved.'') [] TECH_LEAD False None \<and>
   fst (start_interview_endpoint sample_world session_state) =
     Inr (StartResponse (py ''Tell me about a scaling challenge you solved.'') [] TECH_LEAD)"
proof -
  let ?q = "py ''Tell me about a scaling challenge you solved.''"
  let ?a = "py ''I have five years of experience in backend systems''"
  let ?stt = "\<lparr>transcript = ?a, confidence = 1\<rparr> :: stt_result"
  have f: "tts_failure sample_world ?q TECH_LEAD"
    by (simp add: tts_failure_def sample_world_def is_set_def)
  have st: "strip ?a = ?a"
    by (simp add: str_eval)
  have h1: "\<not> clock sample_world - start_time sample_session > MAX_INTERVIEW_DURATION"
    by (simp add: world_eval)
  have h2: "save_upload sample_world = None"
    by (simp add: world_eval)
  have h3: "transcribe_file sample_world = Inr ?stt"
    by (simp add: world_eval str_eval)
  have h4: "strip (transcript ?stt) \<noteq> []"
    by (simp add: st) (simp add: py_def)
  have g: "generate_next_panel_turn sample_world s
           = Inr (Some (py ''[TECH_LEAD] Tell me about a scaling challenge you solved.''))" for s
    by (simp add: generate_next_panel_turn_def sample_world_def)
  have p1: "parse_panel_speaker_and_text
              (strip (py ''[TECH_LEAD] Tell me about a scaling challenge you solved.''))
            = (TECH_LEAD, ?q, False)"
    by (simp add: str_eval)
  have p2: "parse_panel_speaker_and_text
              (py ''[TECH_LEAD] Tell me about a scaling challenge you solved.'')
            = (TECH_LEAD, ?q, False)"
    by (simp add: str_eval)
  have e1: "encodable (strip (transcript ?stt))"
    by (simp add: st) (simp add: encodable_def py_def)
  have e2: "encodable ?q"
    by (simp add: encodable_def py_def)
  note inst = synthesize_fails_softly [OF f, of sample_session ?stt
      "py ''[TECH_LEAD] Tell me about a scaling challenge you solved.''"]
  have c: "fst (chat sample_world sample_session) =
             ChatResponse (strip (transcript ?stt)) ?q [] TECH_LEAD False None"
    using inst h1 h2 h3 h4 g p1 e1 e2 by blast
  have c': "fst (chat sample_world sample_session) = ChatResponse ?a ?q [] TECH_LEAD False None"
    using c by (simp add: st)
  have d: "fst (start_interview_endpoint sample_world session_state) =
             Inr (StartResponse ?q [] TECH_LEAD)"
    using synthesize_fails_softly [OF f, of session_state _ _
        "py ''[TECH_LEAD] Tell me about a scaling challenge you solved.''" False] g p2 e2
    by blast
  show ?thesis using synthesize_fails_softly [OF f] f c' d by blast
qed

end
